theory Spec2Isabelle
  imports Main "HOL-Library.AList"
begin

section \<open>JavaScript values\<close>

text \<open>
  The service is TypeScript; at run time its data are JavaScript values. Claims payloads,
  registry records, identity-provider users, thrown errors and the objects the service
  returns are all values of \<open>jv\<close>. An object is the list of its own properties in
  insertion order; numbers are the integers the service handles (ids, epoch seconds,
  milliseconds).
\<close>

datatype jv =
    JUndefined
  | JNull
  | JBool bool
  | JNum int
  | JStr string
  | JArr "jv list"
  | JObj "(string \<times> jv) list"

type_synonym obj = "(string \<times> jv) list"

definition digit_char :: "nat \<Rightarrow> char" where
  "digit_char d =
     (if d = 0 then CHR ''0'' else if d = 1 then CHR ''1'' else if d = 2 then CHR ''2''
      else if d = 3 then CHR ''3'' else if d = 4 then CHR ''4'' else if d = 5 then CHR ''5''
      else if d = 6 then CHR ''6'' else if d = 7 then CHR ''7'' else if d = 8 then CHR ''8''
      else CHR ''9'')"

function string_of_nat :: "nat \<Rightarrow> string" where
  "string_of_nat n =
     (if n < 10 then [digit_char n]
      else string_of_nat (n div 10) @ [digit_char (n mod 10)])"
  by pat_completeness auto
termination
  by (relation "measure id") auto

definition string_of_int :: "int \<Rightarrow> string" where
  "string_of_int i =
     (if i < 0 then CHR ''-'' # string_of_nat (nat (- i)) else string_of_nat (nat i))"

fun join_comma :: "string list \<Rightarrow> string" where
  "join_comma [] = []"
| "join_comma [x] = x"
| "join_comma (x # y # ys) = x @ CHR '','' # join_comma (y # ys)"

text \<open>\<open>String(v)\<close>, the conversion a template literal and a property key apply.\<close>

fun js_String :: "jv \<Rightarrow> string" where
  "js_String JUndefined = ''undefined''"
| "js_String JNull = ''null''"
| "js_String (JBool b) = (if b then ''true'' else ''false'')"
| "js_String (JNum n) = string_of_int n"
| "js_String (JStr s) = s"
| "js_String (JArr xs) =
     join_comma (map (\<lambda>x. if x = JUndefined \<or> x = JNull then [] else js_String x) xs)"
| "js_String (JObj kvs) = ''[object Object]''"

text \<open>Truthiness, as \<open>if (v)\<close>, \<open>!v\<close>, \<open>a || b\<close> and \<open>a && b\<close> read a value.\<close>

fun truthy :: "jv \<Rightarrow> bool" where
  "truthy JUndefined = False"
| "truthy JNull = False"
| "truthy (JBool b) = b"
| "truthy (JNum n) = (n \<noteq> 0)"
| "truthy (JStr s) = (s \<noteq> [])"
| "truthy (JArr xs) = True"
| "truthy (JObj kvs) = True"

definition js_or :: "jv \<Rightarrow> jv \<Rightarrow> jv" where
  "js_or a b = (if truthy a then a else b)"

definition TypeError :: "string \<Rightarrow> jv" where
  "TypeError msg = JObj [(''name'', JStr ''TypeError''), (''message'', JStr msg)]"

text \<open>
  Modelled from the spec: \<open>lib/errors.js\<close> is not among the sources. An \<open>ApiError\<close> carries
  its message and an HTTP-like status; constructed without a status it is the Internal
  condition, 500 (the log line next to the only such construction says \<open>500 -\<close>).
\<close>

definition ApiError :: "jv \<Rightarrow> int option \<Rightarrow> jv" where
  "ApiError msg st =
     JObj [(''name'', JStr ''ApiError''), (''message'', msg),
           (''status'', JNum (case st of None \<Rightarrow> 500 | Some c \<Rightarrow> c))]"

text \<open>\<open>v[k]\<close> for a value that is neither \<open>undefined\<close> nor \<open>null\<close>.\<close>

fun get_member :: "jv \<Rightarrow> string \<Rightarrow> jv" where
  "get_member (JObj kvs) k = (case map_of kvs k of Some v \<Rightarrow> v | None \<Rightarrow> JUndefined)"
| "get_member (JArr xs) k = (if k = ''length'' then JNum (int (length xs)) else JUndefined)"
| "get_member (JStr s) k = (if k = ''length'' then JNum (int (length s)) else JUndefined)"
| "get_member v k = JUndefined"

definition nullish :: "jv \<Rightarrow> bool" where
  "nullish v = (v = JUndefined \<or> v = JNull)"

text \<open>\<open>v.k\<close>: a TypeError on \<open>undefined\<close> and \<open>null\<close>.\<close>

definition dot :: "jv \<Rightarrow> string \<Rightarrow> jv + jv" where
  "dot v k =
     (if nullish v
      then Inl (TypeError (''Cannot read properties of '' @ js_String v))
      else Inr (get_member v k))"

text \<open>\<open>v?.k\<close>.\<close>

definition opt_dot :: "jv \<Rightarrow> string \<Rightarrow> jv" where
  "opt_dot v k = (if nullish v then JUndefined else get_member v k)"

text \<open>\<open>v[i]\<close> for a value that is neither \<open>undefined\<close> nor \<open>null\<close>.\<close>

fun element :: "jv \<Rightarrow> nat \<Rightarrow> jv" where
  "element (JArr xs) i = (if i < length xs then xs ! i else JUndefined)"
| "element (JStr s) i = (if i < length s then JStr [s ! i] else JUndefined)"
| "element (JObj kvs) i = get_member (JObj kvs) (string_of_nat i)"
| "element v i = JUndefined"

definition index :: "jv \<Rightarrow> nat \<Rightarrow> jv + jv" where
  "index v i =
     (if nullish v
      then Inl (TypeError (''Cannot read properties of '' @ js_String v))
      else Inr (element v i))"

text \<open>\<open>v.toString()\<close>.\<close>

definition toString :: "jv \<Rightarrow> jv + string" where
  "toString v =
     (if nullish v
      then Inl (TypeError (''Cannot read properties of '' @ js_String v))
      else Inr (js_String v))"

text \<open>
  \<open>a - b\<close> on two numbers; \<open>None\<close> is NaN. \<open>iat\<close> and \<open>exp\<close> are declared numbers, and a
  value outside that type is rendered as NaN.
\<close>

definition js_minus :: "jv \<Rightarrow> jv \<Rightarrow> int option" where
  "js_minus a b = (case (a, b) of (JNum x, JNum y) \<Rightarrow> Some (x - y) | _ \<Rightarrow> None)"

definition string_of_number :: "int option \<Rightarrow> string" where
  "string_of_number n = (case n of Some i \<Rightarrow> string_of_int i | None \<Rightarrow> ''NaN'')"

subsection \<open>Objects\<close>

definition get_prop :: "obj \<Rightarrow> string \<Rightarrow> jv" where
  "get_prop ob k = get_member (JObj ob) k"

text \<open>\<open>ob[k] = v\<close>: an existing property keeps its place, a new one goes last.\<close>

definition set_prop :: "obj \<Rightarrow> string \<Rightarrow> jv \<Rightarrow> obj" where
  "set_prop ob k v = AList.update k v ob"

text \<open>The own enumerable properties a spread \<open>...v\<close> copies.\<close>

fun own_props :: "jv \<Rightarrow> obj" where
  "own_props (JObj kvs) = kvs"
| "own_props (JArr xs) = zip (map string_of_nat [0..<length xs]) xs"
| "own_props (JStr s) = zip (map string_of_nat [0..<length s]) (map (\<lambda>c. JStr [c]) s)"
| "own_props v = []"

text \<open>
  \<open>{...a, ...b}\<close>: the properties of \<open>a\<close> in their order, each with the value \<open>b\<close> gives the
  key when \<open>b\<close> has it, then the properties only \<open>b\<close> has.
\<close>

definition spread :: "jv \<Rightarrow> jv \<Rightarrow> obj" where
  "spread a b =
     map (\<lambda>(k, v). (k, case map_of (own_props b) k of Some v' \<Rightarrow> v' | None \<Rightarrow> v)) (own_props a)
     @ filter (\<lambda>(k, v). map_of (own_props a) k = None) (own_props b)"

fun has_member :: "jv \<Rightarrow> string \<Rightarrow> bool" where
  "has_member (JObj kvs) k = (map_of kvs k \<noteq> None)"
| "has_member (JArr xs) k = (k = ''length'')"
| "has_member (JStr s) k = (k = ''length'')"
| "has_member v k = False"

text \<open>lodash \<open>_.pick(v, keys)\<close>: the listed keys that \<open>v\<close> has, in the order of the list.\<close>

definition pick :: "jv \<Rightarrow> string list \<Rightarrow> obj" where
  "pick v keys = map (\<lambda>k. (k, get_member v k)) (filter (has_member v) keys)"

text \<open>The rest of a destructuring \<open>{k1, ..., kn, ...rest} = ob\<close>.\<close>

definition omit :: "string list \<Rightarrow> obj \<Rightarrow> obj" where
  "omit ks ob = filter (\<lambda>(k, v). k \<notin> set ks) ob"

section \<open>Collaborators, state and effects\<close>

text \<open>
  The collaborators the service is constructed with, and the libraries it calls that have
  effects, answer through one oracle over an abstract world: a call may raise (\<open>Inl\<close>) or
  return (\<open>Inr\<close>) and changes the world. \<open>Jwt_sign\<close> is \<open>jwt.sign\<close> with the service's private
  key; \<open>Axios_post\<close> is the HTTP client of \<open>StrapiService\<close>.
\<close>

datatype callee =
    AclRepo_getUserAcl
  | Crypto_randomUUID
  | Jwt_sign
  | Clients_get
  | Clients_filter
  | Clients_create
  | Clients_update
  | Messages_send
  | Messages_get
  | BlocklistRepository_create
  | Codegen_generate
  | Axios_post

datatype event =
    Called callee "jv list" "jv + jv"
  | Logged jv string

text \<open>
  \<open>db\<close> is the Keyv store \<open>keyv.otp\<close>: a key holds a value and the instant it expires at
  (none when the entry never expires). \<open>now\<close> is \<open>Date.now()\<close>, in milliseconds.
\<close>

record 'w st =
  world :: 'w
  db :: "string \<rightharpoonup> jv \<times> int option"
  now :: int
  trace :: "event list"

text \<open>
  \<open>isFromFollowUpBoss\<close> (\<open>lib/boss/auth.js\<close>) and \<open>calcSignature\<close> (\<open>lib/utils.js\<close>) are not
  among the sources and are parameters, as are the library functions \<open>ms\<close>, the parse of
  a date (\<open>None\<close> is NaN) and \<open>JSON.parse\<close> of a base64 text.
\<close>

record 'w env =
  respond :: "'w \<Rightarrow> callee \<Rightarrow> jv list \<Rightarrow> (jv + jv) \<times> 'w"
  isFromFollowUpBoss :: "string \<Rightarrow> string \<Rightarrow> string \<Rightarrow> bool"
  calcSignature :: "string \<Rightarrow> string \<Rightarrow> string"
  ms :: "string \<Rightarrow> int option"
  Date_getTime :: "jv \<Rightarrow> int option"
  JSON_parse_base64 :: "string \<Rightarrow> jv + jv"

type_synonym ('w, 'a) action = "'w st \<Rightarrow> (jv + 'a) \<times> 'w st"

definition returnE :: "'a \<Rightarrow> ('w, 'a) action" where
  "returnE a s = (Inr a, s)"

definition throwE :: "jv \<Rightarrow> ('w, 'a) action" where
  "throwE e s = (Inl e, s)"

definition liftE :: "jv + 'a \<Rightarrow> ('w, 'a) action" where
  "liftE r s = (r, s)"

definition bindE :: "('w, 'a) action \<Rightarrow> ('a \<Rightarrow> ('w, 'b) action) \<Rightarrow> ('w, 'b) action" where
  "bindE m f s = (case m s of (Inl e, s') \<Rightarrow> (Inl e, s') | (Inr a, s') \<Rightarrow> f a s')"

text \<open>\<open>try { m } catch (error) { h error }\<close>.\<close>

definition catchE :: "('w, 'a) action \<Rightarrow> (jv \<Rightarrow> ('w, 'a) action) \<Rightarrow> ('w, 'a) action" where
  "catchE m h s = (case m s of (Inl e, s') \<Rightarrow> h e s' | (Inr a, s') \<Rightarrow> (Inr a, s'))"

definition call :: "'w env \<Rightarrow> callee \<Rightarrow> jv list \<Rightarrow> ('w, jv) action" where
  "call env m args s =
     (case respond env (world s) m args of
        (r, w') \<Rightarrow> (r, s\<lparr>world := w', trace := trace s @ [Called m args r]\<rparr>))"

text \<open>\<open>this.logger.error(data, message)\<close>: recorded, and taken not to raise.\<close>

definition logger_error :: "jv \<Rightarrow> string \<Rightarrow> ('w, unit) action" where
  "logger_error d msg s = (Inr (), s\<lparr>trace := trace s @ [Logged d msg]\<rparr>)"

definition Date_now :: "('w, int) action" where
  "Date_now s = (Inr (now s), s)"

subsection \<open>The Keyv store\<close>

text \<open>
  Keyv's contract: \<open>get\<close> answers \<open>undefined\<close> for a key that is absent or whose entry
  has expired (\<open>Date.now() > expires\<close>); \<open>set\<close> with a time to live of 0 stores an entry
  that never expires; \<open>delete\<close> removes the key. An expired entry is never visible again,
  so the purge Keyv does when it reads one is left out.
\<close>

definition keyv_lookup :: "'w st \<Rightarrow> string \<Rightarrow> jv" where
  "keyv_lookup s k =
     (case db s k of
        None \<Rightarrow> JUndefined
      | Some (v, ex) \<Rightarrow>
          (case ex of
             None \<Rightarrow> v
           | Some t \<Rightarrow> if now s > t then JUndefined else v))"

definition keyv_get :: "string \<Rightarrow> ('w, jv) action" where
  "keyv_get k s = (Inr (keyv_lookup s k), s)"

definition keyv_set :: "string \<Rightarrow> jv \<Rightarrow> int \<Rightarrow> ('w, unit) action" where
  "keyv_set k v ttl s =
     (Inr (), s\<lparr>db := (db s)(k \<mapsto> (v, if ttl = 0 then None else Some (now s + ttl)))\<rparr>)"

definition keyv_delete :: "string \<Rightarrow> ('w, unit) action" where
  "keyv_delete k s = (Inr (), s\<lparr>db := (db s)(k := None)\<rparr>)"

section \<open>Configuration and request types\<close>

record JwtSettings =
  expire :: "string option"
  issuer :: "string option"

text \<open>
  The fields of \<open>AppConfig\<close> the service reads (\<open>config.ts\<close> is not among the sources), and
  the two members of \<open>UserRole\<close> it names (\<open>constants.js\<close> is not either): parameters.
  \<open>auth_roleOverrides\<close> gives, for a role it lists, that role's \<open>jwt\<close> settings.
\<close>

record config =
  app_disable_persistence :: bool
  auth_jwt_expire :: string
  auth_jwt_issuer :: string
  auth_roleOverrides :: "(string \<times> JwtSettings option) list option"
  auth_otp_ttl_ms :: int
  auth_otp_resend_ttl_ms :: int
  auth_otp_message :: string
  auth_otp_uri :: string
  auth_otp_message_type :: string
  auth_emailtoken_enabled :: bool
  auth_emailtoken_expire :: string
  auth_emailtoken_auto_otp :: bool
  auth_agents_signature_salt :: string
  boss_system_key :: string
  repliers_clients_defaultAgentId :: jv
  UserRole_User :: string
  UserRole_Agent :: string

record UserOtpDto =
  code :: string

record UserLoginDto =
  login_identifier :: string
  login_password :: "string option"

record UserSignupDto =
  username :: string
  email :: string
  firstName :: string
  lastName :: string
  signup_password :: string

record AuthRepliersTokenDto =
  token :: string

record AuthEmbedDto =
  embed_context :: string
  embed_signature :: string

definition userProfilKeys :: "string list" where
  "userProfilKeys =
     [''id'', ''clientId'', ''username'', ''firstName'', ''lastName'', ''email'',
      ''confirmed'', ''blocked'', ''createdAt'', ''updatedAt'']"

section \<open>StrapiService\<close>

text \<open>
  \<open>register\<close> and \<open>login\<close> post to the identity provider and return the response's \<open>data\<close>;
  whatever the \<open>try\<close> block raises is logged and mapped to an \<open>ApiError\<close>.
\<close>

definition StrapiService_register :: "'w env \<Rightarrow> jv \<Rightarrow> ('w, jv) action" where
  "StrapiService_register env data =
     catchE
       (bindE (call env Axios_post [JStr ''/api/auth/local/register'', data])
          (\<lambda>response. liftE (dot response ''data'')))
       (\<lambda>error.
          bindE (liftE (dot error ''response'')) (\<lambda>response.
          bindE (logger_error (JObj [(''error'', opt_dot response ''data'')])
                   ''[StrapiService: register]: Failed to register user'') (\<lambda>_.
          if opt_dot response ''status'' = JNum 400
          then throwE
                 (ApiError
                    (js_or (opt_dot (opt_dot (opt_dot response ''data'') ''error'') ''message'')
                       (JStr ''Registration failed''))
                    (Some 400))
          else throwE (ApiError (JStr ''Registration service unavailable'') (Some 503)))))"

definition StrapiService_login :: "'w env \<Rightarrow> jv \<Rightarrow> ('w, jv) action" where
  "StrapiService_login env data =
     catchE
       (bindE (call env Axios_post [JStr ''/api/auth/local'', data])
          (\<lambda>response. liftE (dot response ''data'')))
       (\<lambda>error.
          bindE (liftE (dot error ''response'')) (\<lambda>response.
          bindE (logger_error (JObj [(''error'', opt_dot response ''data'')])
                   ''[StrapiService: login]: Failed to login user'') (\<lambda>_.
          if opt_dot response ''status'' = JNum 400
          then throwE (ApiError (JStr ''Invalid credentials'') (Some 401))
          else throwE (ApiError (JStr ''Authentication service unavailable'') (Some 503)))))"

section \<open>AuthService\<close>

definition getRoleOverride :: "config \<Rightarrow> jv \<Rightarrow> JwtSettings option" where
  "getRoleOverride cfg role =
     (case auth_roleOverrides cfg of
        None \<Rightarrow> None
      | Some overrides \<Rightarrow>
          (case map_of overrides (js_String role) of None \<Rightarrow> None | Some j \<Rightarrow> j))"

text \<open>\<open>(roleOverride && roleOverride.expire) || defaultExpire\<close>.\<close>

definition override_expire :: "JwtSettings option \<Rightarrow> string \<Rightarrow> string" where
  "override_expire roleOverride defaultExpire =
     (case roleOverride of
        None \<Rightarrow> defaultExpire
      | Some j \<Rightarrow>
          (case expire j of
             None \<Rightarrow> defaultExpire
           | Some e \<Rightarrow> if e \<noteq> [] then e else defaultExpire))"

text \<open>\<open>expiresIn || defaultExpire\<close>, for the optional parameter \<open>expiresIn\<close>.\<close>

definition expires_or :: "string option \<Rightarrow> string \<Rightarrow> string" where
  "expires_or expiresIn defaultExpire =
     (case expiresIn of
        None \<Rightarrow> defaultExpire
      | Some e \<Rightarrow> if e \<noteq> [] then e else defaultExpire)"

definition signInOptions :: "config \<Rightarrow> string \<Rightarrow> jv \<Rightarrow> jv" where
  "signInOptions cfg expiresIn jwtid =
     JObj [(''algorithm'', JStr ''RS256''), (''expiresIn'', JStr expiresIn),
           (''issuer'', JStr (auth_jwt_issuer cfg)), (''jwtid'', jwtid)]"

text \<open>\<open>acl?.role || payload["role"] || UserRole.User\<close>.\<close>

definition effective_role :: "config \<Rightarrow> jv \<Rightarrow> obj \<Rightarrow> jv" where
  "effective_role cfg acl payload =
     js_or (js_or (opt_dot acl ''role'') (get_prop payload ''role'')) (JStr (UserRole_User cfg))"

definition generateToken :: "config \<Rightarrow> 'w env \<Rightarrow> obj \<Rightarrow> string option \<Rightarrow> ('w, jv) action" where
  "generateToken cfg env payload expiresIn =
     bindE
       (if \<not> app_disable_persistence cfg then
          bindE (call env AclRepo_getUserAcl [get_prop payload ''email'']) (\<lambda>acl.
            let role = effective_role cfg acl payload;
                roleOverride = getRoleOverride cfg role
            in returnE (set_prop payload ''role'' role,
                        override_expire roleOverride (auth_jwt_expire cfg)))
        else returnE (payload, auth_jwt_expire cfg))
       (\<lambda>(payload', defaultExpire).
          bindE (call env Crypto_randomUUID []) (\<lambda>jwtid.
          call env Jwt_sign
            [JObj payload', signInOptions cfg (expires_or expiresIn defaultExpire) jwtid]))"

definition otp_gone :: string where
  "otp_gone =
     ''The OTP link you follow has already been used or expired. Go to Sign in to request a new link.''"

definition useOtp :: "config \<Rightarrow> 'w env \<Rightarrow> UserOtpDto \<Rightarrow> ('w, jv) action" where
  "useOtp cfg env params =
     bindE (keyv_get (code params)) (\<lambda>code_item.
     if \<not> truthy code_item
     then throwE (ApiError (JStr otp_gone) (Some 403))
     else
       bindE (call env Clients_get [get_member code_item ''clientId'']) (\<lambda>user.
       bindE (liftE (dot user ''email'')) (\<lambda>user_email.
       bindE (liftE (toString (get_member user ''clientId''))) (\<lambda>sub.
       bindE (generateToken cfg env [(''email'', user_email), (''sub'', JStr sub)] None) (\<lambda>tok.
       bindE (keyv_delete (code params)) (\<lambda>_.
       returnE (JObj [(''token'', tok), (''profile'', JObj (pick user userProfilKeys))])))))))"

definition loginWithStrapi :: "config \<Rightarrow> 'w env \<Rightarrow> string \<Rightarrow> string \<Rightarrow> ('w, jv) action" where
  "loginWithStrapi cfg env user_email pw =
     bindE (StrapiService_login env
              (JObj [(''identifier'', JStr user_email), (''password'', JStr pw)])) (\<lambda>strapiAuth.
     bindE (liftE (dot strapiAuth ''user'')) (\<lambda>strapi_user.
     bindE (liftE (dot strapi_user ''id'')) (\<lambda>strapi_id.
     bindE (liftE (toString strapi_id)) (\<lambda>externalId.
     bindE (call env Clients_filter [JObj [(''externalId'', JStr externalId)]]) (\<lambda>result.
     bindE (liftE (dot result ''clients'')) (\<lambda>clients.
     bindE (liftE (index clients 0)) (\<lambda>client0.
     returnE
       (JObj [(''token'', get_member strapiAuth ''jwt''),
              (''user'', JObj (pick (JObj (spread client0 strapi_user)) userProfilKeys))]))))))))"

text \<open>The passwordless path below the second \<open>return\<close> is commented out in the source.\<close>

definition login :: "config \<Rightarrow> 'w env \<Rightarrow> UserLoginDto \<Rightarrow> ('w, jv) action" where
  "login cfg env params =
     (case login_password params of
        Some pw \<Rightarrow>
          if pw \<noteq> [] \<and> login_identifier params \<noteq> []
          then bindE (loginWithStrapi cfg env (login_identifier params) pw) (\<lambda>result.
                 returnE
                   (JObj [(''token'', get_member result ''token''),
                          (''user'', get_member result ''user'')]))
          else returnE (JObj [(''token'', JUndefined), (''user'', JNull)])
      | None \<Rightarrow> returnE (JObj [(''token'', JUndefined), (''user'', JNull)]))"

definition otpSentKey :: "jv \<Rightarrow> string" where
  "otpSentKey clientId = ''otp_sent_'' @ js_String clientId"

definition otp_wait :: string where
  "otp_wait =
     ''You have already requested a new OTP. Please wait before requesting another one.''"

definition otpSendRateOpened :: "jv \<Rightarrow> ('w, unit) action" where
  "otpSendRateOpened clientId =
     bindE (keyv_get (otpSentKey clientId)) (\<lambda>lastSent.
     if truthy lastSent
     then bindE
            (logger_error (JObj [(''data'', JObj [(''clientId'', clientId)])])
               (''403 - [AuthService: otpSendRateOpened]: '' @ otp_wait))
            (\<lambda>_. throwE (ApiError (JStr otp_wait) (Some 403)))
     else returnE ())"

definition formatOtpMessageContent :: "config \<Rightarrow> jv \<Rightarrow> jv" where
  "formatOtpMessageContent cfg otp =
     (let link = JStr (auth_otp_uri cfg @ ''?code='' @ js_String otp);
          linkTypeContent =
            JObj [(''message'', JStr (auth_otp_message cfg)), (''links'', JArr [link])];
          codeTypeMessage = JStr (auth_otp_message cfg @ '' '' @ js_String otp)
      in if auth_otp_message_type cfg = ''link'' then linkTypeContent
         else if auth_otp_message_type cfg = ''code'' then JObj [(''message'', codeTypeMessage)]
         else if auth_otp_message_type cfg = ''link_and_code''
         then JObj [(''message'', codeTypeMessage), (''links'', JArr [link])]
         else linkTypeContent)"

text \<open>\<open>agentId\<close> defaults to the configured agent when the argument is \<open>undefined\<close>.\<close>

definition sendOtp :: "config \<Rightarrow> 'w env \<Rightarrow> jv \<Rightarrow> jv \<Rightarrow> ('w, jv) action" where
  "sendOtp cfg env clientId agentId_arg =
     (let agentId =
            (if agentId_arg = JUndefined then repliers_clients_defaultAgentId cfg
             else agentId_arg)
      in bindE (otpSendRateOpened clientId) (\<lambda>_.
         bindE (call env Codegen_generate []) (\<lambda>otp.
         bindE (keyv_set (js_String otp) (JObj [(''clientId'', clientId)])
                  (auth_otp_ttl_ms cfg)) (\<lambda>_.
         bindE Date_now (\<lambda>sent_at.
         bindE (keyv_set (otpSentKey clientId) (JNum sent_at) (auth_otp_resend_ttl_ms cfg)) (\<lambda>_.
         bindE (call env Messages_send
                  [JObj [(''agentId'', agentId), (''clientId'', clientId),
                         (''sender'', JStr ''agent''),
                         (''content'', formatOtpMessageContent cfg otp)]]) (\<lambda>message.
         returnE otp)))))))"

definition refresh_no_expiration :: string where
  "refresh_no_expiration =
     ''Token doesn'' @ [CHR 0x27] @ ''t include expiration info, cant refresh token''"

definition refresh :: "config \<Rightarrow> 'w env \<Rightarrow> obj \<Rightarrow> ('w, jv) action" where
  "refresh cfg env payload =
     (if \<not> truthy (get_prop payload ''iat'') \<or> \<not> truthy (get_prop payload ''exp'')
      then bindE
             (logger_error (JObj [(''data'', JObj [(''payload'', JObj payload)])])
                (''500 - [AuthService: refresh]: '' @ refresh_no_expiration))
             (\<lambda>_. throwE (ApiError (JStr refresh_no_expiration) None))
      else
        (let iat = get_prop payload ''iat'';
             exp = get_prop payload ''exp'';
             jti = get_prop payload ''jti'';
             newPayload = omit [''iat'', ''exp'', ''iss'', ''jti''] payload;
             diff = js_minus exp iat;
             expiresIn = string_of_number diff @ ''s''
         in bindE (generateToken cfg env newPayload (Some expiresIn)) (\<lambda>tok.
            bindE (if truthy jti
                   then bindE (call env BlocklistRepository_create [jti, exp])
                          (\<lambda>_. returnE ())
                   else returnE ()) (\<lambda>_.
            returnE (JObj [(''token'', tok)])))))"

definition preferences_on :: jv where
  "preferences_on =
     JObj [(''email'', JBool True), (''sms'', JBool True), (''unsubscribe'', JBool False)]"

text \<open>The objects \<open>signup\<close> sends: to the identity provider, and to the registry.\<close>

definition register_body :: "UserSignupDto \<Rightarrow> jv" where
  "register_body params =
     JObj [(''username'', JStr (username params)), (''email'', JStr (email params)),
           (''password'', JStr (signup_password params)),
           (''firstName'', JStr (firstName params)),
           (''lastName'', JStr (lastName params))]"

definition create_body :: "config \<Rightarrow> UserSignupDto \<Rightarrow> jv \<Rightarrow> jv" where
  "create_body cfg params strapi_id =
     JObj [(''agentId'', repliers_clients_defaultAgentId cfg),
           (''fname'', JStr (firstName params)),
           (''lname'', JStr (lastName params)),
           (''email'', JStr (email params)),
           (''externalId'', strapi_id),
           (''preferences'', preferences_on),
           (''status'', JBool True)]"

definition update_body :: "UserSignupDto \<Rightarrow> jv \<Rightarrow> jv \<Rightarrow> jv" where
  "update_body params existingUser strapi_id =
     JObj [(''clientId'', get_member existingUser ''clientId''),
           (''agentId'', get_member existingUser ''agentId''),
           (''fname'', JStr (firstName params)),
           (''lname'', JStr (lastName params)),
           (''externalId'', strapi_id),
           (''preferences'', preferences_on),
           (''status'', JBool True)]"

definition signup :: "config \<Rightarrow> 'w env \<Rightarrow> UserSignupDto \<Rightarrow> ('w, jv) action" where
  "signup cfg env params =
     bindE (StrapiService_register env (register_body params)) (\<lambda>strapiAuth.
     bindE
       (catchE
          (bindE (liftE (dot strapiAuth ''user'')) (\<lambda>strapi_user.
           bindE (liftE (dot strapi_user ''id'')) (\<lambda>strapi_id.
           call env Clients_create [create_body cfg params strapi_id])))
          (\<lambda>error.
             bindE (liftE (dot error ''status'')) (\<lambda>error_status.
             if error_status = JNum 409 \<or> get_member error ''statusCode'' = JNum 409
             then
               bindE (call env Clients_filter [JObj [(''email'', JStr (email params))]])
                 (\<lambda>existingUsers.
               bindE (liftE (dot existingUsers ''clients'')) (\<lambda>clients.
               bindE (liftE (index clients 0)) (\<lambda>existingUser.
               if \<not> truthy existingUser
               then throwE (ApiError (JStr ''User conflict but not found'') (Some 500))
               else
                 bindE (liftE (dot strapiAuth ''user'')) (\<lambda>strapi_user.
                 bindE (liftE (dot strapi_user ''id'')) (\<lambda>strapi_id.
                 bindE (call env Clients_update [update_body params existingUser strapi_id])
                   (\<lambda>_.
                 call env Clients_get [get_member existingUser ''clientId'']))))))
             else throwE error))) (\<lambda>userInfo.
     if \<not> truthy userInfo
     then throwE (ApiError (JStr ''Failed to create or retrieve user'') (Some 500))
     else
       bindE (liftE (dot strapiAuth ''user'')) (\<lambda>strapi_user.
       returnE
         (JObj [(''token'', get_member strapiAuth ''jwt''),
                (''user'', JObj (pick (JObj (spread userInfo strapi_user)) userProfilKeys))]))))"

text \<open>
  \<open>now - sent > window\<close>: a comparison with NaN, or with the \<open>undefined\<close> that \<open>ms\<close> gives a
  text it cannot read, is false.
\<close>

definition elapsed_exceeds :: "int \<Rightarrow> int option \<Rightarrow> int option \<Rightarrow> bool" where
  "elapsed_exceeds t sent window =
     (case (sent, window) of (Some t0, Some w) \<Rightarrow> t - t0 > w | _ \<Rightarrow> False)"

definition useRepliersToken :: "config \<Rightarrow> 'w env \<Rightarrow> AuthRepliersTokenDto \<Rightarrow> ('w, jv) action" where
  "useRepliersToken cfg env params =
     (let logged = JObj [(''data'', JObj [(''params'', JObj [(''token'', JStr (token params))])])]
      in
      if \<not> auth_emailtoken_enabled cfg
      then bindE
             (logger_error logged
                ''400 - [AuthService: useRepliersToken]: Endpoint is not activated'')
             (\<lambda>_. throwE (ApiError (JStr ''Endpoint is not activated'') (Some 400)))
      else
        bindE (call env Messages_get [JObj [(''token'', JStr (token params))]]) (\<lambda>messageRes.
        bindE (liftE (dot messageRes ''messages'')) (\<lambda>messages.
        bindE (liftE (dot messages ''length'')) (\<lambda>messages_length.
        if messages_length = JNum 0 \<or> element messages 0 = JUndefined
        then bindE
               (logger_error logged
                  ''404 - [AuthService: useRepliersToken]: Email token is invalid'')
               (\<lambda>_. throwE (ApiError (JStr ''Email token is invalid'') (Some 403)))
        else
          (let message = element messages 0 in
           bindE Date_now (\<lambda>t.
           bindE (liftE (dot message ''delivery'')) (\<lambda>delivery.
           bindE (liftE (dot delivery ''sentDateTime'')) (\<lambda>sentDateTime.
           if elapsed_exceeds t (Date_getTime env sentDateTime)
                (ms env (auth_emailtoken_expire cfg))
           then
             (if auth_emailtoken_auto_otp cfg
              then
                bindE (sendOtp cfg env (get_member message ''clientId'')
                         (get_member message ''agentId'')) (\<lambda>_.
                bindE
                  (logger_error logged
                     (''412 - [AuthService: useRepliersToken]: ''
                      @ ''Email token has expired. Please check your email/text for a new authentication link''))
                  (\<lambda>_. throwE
                          (ApiError
                             (JStr ''Email token has expired. Please check your email/text for a new authentication link'')
                             (Some 412))))
              else
                bindE
                  (logger_error logged
                     (''403 - [AuthService: useRepliersToken]: '' @ ''Email token has expired''))
                  (\<lambda>_. throwE (ApiError (JStr ''Email token has expired'') (Some 403))))
           else
             bindE (call env Clients_get [get_member message ''clientId'']) (\<lambda>userInfo.
             bindE (liftE (dot userInfo ''email'')) (\<lambda>user_email.
             bindE (liftE (toString (get_member userInfo ''clientId''))) (\<lambda>sub.
             bindE (generateToken cfg env [(''email'', user_email), (''sub'', JStr sub)] None)
               (\<lambda>tok.
             returnE
               (JObj [(''token'', tok),
                      (''profile'', JObj (pick userInfo userProfilKeys))])))))))))))))"

definition embedLogin :: "config \<Rightarrow> 'w env \<Rightarrow> AuthEmbedDto \<Rightarrow> ('w, jv) action" where
  "embedLogin cfg env params =
     (if \<not> isFromFollowUpBoss env (embed_context params) (embed_signature params)
            (boss_system_key cfg)
      then throwE (ApiError (JStr ''Invalid signature'') (Some 401))
      else
        bindE (liftE (JSON_parse_base64 env (embed_context params))) (\<lambda>decodedContext.
        bindE (liftE (dot decodedContext ''user'')) (\<lambda>embed_user.
        bindE (liftE (dot embed_user ''email'')) (\<lambda>user_email.
        bindE (generateToken cfg env
                 [(''email'', user_email), (''role'', JStr (UserRole_Agent cfg))] None) (\<lambda>jwt.
        bindE (liftE (dot decodedContext ''person'')) (\<lambda>person.
        bindE (liftE (dot person ''id'')) (\<lambda>person_id.
        bindE (liftE (toString person_id)) (\<lambda>person_id_text.
        returnE
          (JObj [(''jwt'', jwt),
                 (''clientSignature'',
                  JStr (calcSignature env person_id_text
                          (auth_agents_signature_salt cfg)))])))))))))"

section \<open>Reading a trace\<close>

text \<open>The payload and the options of every \<open>jwt.sign\<close> call, and who was called, in order.\<close>

fun sign_calls :: "event list \<Rightarrow> (jv \<times> jv) list" where
  "sign_calls [] = []"
| "sign_calls (Called Jwt_sign [payload, options] r # evs) = (payload, options) # sign_calls evs"
| "sign_calls (ev # evs) = sign_calls evs"

fun callees :: "event list \<Rightarrow> callee list" where
  "callees [] = []"
| "callees (Called c args r # evs) = c # callees evs"
| "callees (Logged d msg # evs) = callees evs"

section \<open>A concrete deployment\<close>

text \<open>
  A configuration, a set of collaborators and a store on which the theorems below are
  run. The world counts the calls made so far; token ids and tokens are numbered by it.
\<close>

definition cfg0 :: config where
  "cfg0 =
     \<lparr>app_disable_persistence = False,
      auth_jwt_expire = ''1d'',
      auth_jwt_issuer = ''felix'',
      auth_roleOverrides = Some [(''agent'', Some \<lparr>expire = Some ''7d'', issuer = None\<rparr>)],
      auth_otp_ttl_ms = 600000,
      auth_otp_resend_ttl_ms = 60000,
      auth_otp_message = ''Sign in'',
      auth_otp_uri = ''https://app/otp'',
      auth_otp_message_type = ''link'',
      auth_emailtoken_enabled = True,
      auth_emailtoken_expire = ''5m'',
      auth_emailtoken_auto_otp = True,
      auth_agents_signature_salt = ''salt'',
      boss_system_key = ''key'',
      repliers_clients_defaultAgentId = JNum 1,
      UserRole_User = ''user'',
      UserRole_Agent = ''agent''\<rparr>"

definition cfg_no_persistence :: config where
  "cfg_no_persistence = cfg0\<lparr>app_disable_persistence := True\<rparr>"

definition client7 :: jv where
  "client7 =
     JObj [(''clientId'', JNum 7), (''agentId'', JNum 2), (''email'', JStr ''a@x.com''),
           (''fname'', JStr ''Ann''), (''createdAt'', JStr ''2020'')]"

definition strapi31 :: jv where
  "strapi31 =
     JObj [(''id'', JNum 31), (''username'', JStr ''ann''), (''email'', JStr ''ann@x.com''),
           (''confirmed'', JBool True), (''blocked'', JBool False),
           (''createdAt'', JStr ''2024''), (''provider'', JStr ''local'')]"

definition message_sent :: "jv \<Rightarrow> jv" where
  "message_sent sent =
     JObj [(''clientId'', JNum 7), (''agentId'', JNum 2),
           (''delivery'', JObj [(''sentDateTime'', sent)])]"

text \<open>
  The registry already holds \<open>a@x.com\<close> (a create for it is a conflict); the
  access-control table gives \<open>boss@x.com\<close> the role \<open>admin\<close>; no message carries
  the token \<open>none\<close>, and a message carries its token as its sending time.
\<close>

definition respond0 :: "nat \<Rightarrow> callee \<Rightarrow> jv list \<Rightarrow> (jv + jv) \<times> nat" where
  "respond0 w m args =
     (case m of
        AclRepo_getUserAcl \<Rightarrow>
          if args = [JStr ''boss@x.com''] then Inr (JObj [(''role'', JStr ''admin'')])
          else Inr JNull
      | Crypto_randomUUID \<Rightarrow> Inr (JStr (''uuid-'' @ string_of_nat w))
      | Jwt_sign \<Rightarrow> Inr (JStr (''jwt-'' @ string_of_nat w))
      | Clients_get \<Rightarrow> Inr client7
      | Clients_filter \<Rightarrow>
          if args = [JObj [(''email'', JStr ''lost@x.com'')]] then Inr (JObj [(''clients'', JArr [])])
          else Inr (JObj [(''clients'', JArr [client7])])
      | Clients_create \<Rightarrow>
          if get_member (hd args) ''email'' = JStr ''new@x.com''
          then Inr (JObj [(''clientId'', JNum 8), (''email'', JStr ''new@x.com'')])
          else Inl (JObj [(''message'', JStr ''Conflict''), (''status'', JNum 409)])
      | Clients_update \<Rightarrow> Inr JUndefined
      | Messages_send \<Rightarrow> Inr (JObj [(''messageId'', JNum (int w))])
      | Messages_get \<Rightarrow>
          if args = [JObj [(''token'', JStr ''none'')]] then Inr (JObj [(''messages'', JArr [])])
          else Inr (JObj [(''messages'', JArr [message_sent (get_member (hd args) ''token'')])])
      | BlocklistRepository_create \<Rightarrow> Inr JUndefined
      | Codegen_generate \<Rightarrow> Inr (JStr ''424242'')
      | Axios_post \<Rightarrow> Inr (JObj [(''data'', JObj [(''jwt'', JStr ''strapi-jwt''), (''user'', strapi31)])]),
      Suc w)"

definition env0 :: "nat env" where
  "env0 =
     \<lparr>respond = respond0,
      isFromFollowUpBoss = (\<lambda>ctx sig key. sig = ctx @ key),
      calcSignature = (\<lambda>text salt. text @ '':'' @ salt),
      ms = (\<lambda>text. if text = ''5m'' then Some 300000 else None),
      Date_getTime =
        (\<lambda>v. if v = JStr ''old'' then Some 0 else if v = JStr ''fresh'' then Some 999000 else None),
      JSON_parse_base64 =
        (\<lambda>ctx.
           if ctx = ''agent''
           then Inr (JObj [(''user'', JObj [(''email'', JStr ''agent@x.com'')]),
                           (''person'', JObj [(''id'', JNum 55)])])
           else if ctx = ''boss''
           then Inr (JObj [(''user'', JObj [(''email'', JStr ''boss@x.com'')]),
                           (''person'', JObj [(''id'', JNum 56)])])
           else Inl (JObj [(''name'', JStr ''SyntaxError'')]))\<rparr>"

text \<open>
  At time 1000000 the store holds the code \<open>123456\<close> of client 7, live, and nothing else.
\<close>

definition s0 :: "nat st" where
  "s0 =
     \<lparr>world = 0,
      db = [''123456'' \<mapsto> (JObj [(''clientId'', JNum 7)], Some 1500000)],
      now = 1000000,
      trace = []\<rparr>"

text \<open>
  The states \<open>s0\<close> passes through when the code \<open>123456\<close> is consumed: after the registry
  has answered, and after the token has been issued.
\<close>

definition s0_fetched :: "nat st" where
  "s0_fetched = snd (call env0 Clients_get [JNum 7] s0)"

definition s0_issued :: "nat st" where
  "s0_issued =
     snd (generateToken cfg0 env0 [(''email'', JStr ''a@x.com''), (''sub'', JStr ''7'')] None
            s0_fetched)"

text \<open>
  A store in which client 7's code has expired while its resend mark is still live.
\<close>

definition s_cooldown :: "nat st" where
  "s_cooldown =
     \<lparr>world = 0,
      db = [''424242'' \<mapsto> (JObj [(''clientId'', JNum 7)], Some 990000),
            ''otp_sent_7'' \<mapsto> (JNum 950000, Some 1010000)],
      now = 1000000,
      trace = []\<rparr>"

text \<open>
  The claims of a token of \<open>boss@x.com\<close> issued with the role \<open>user\<close>, and claims whose
  \<open>iat\<close> is the epoch itself.
\<close>

definition claims_boss :: obj where
  "claims_boss =
     [(''email'', JStr ''boss@x.com''), (''role'', JStr ''user''), (''iat'', JNum 1000),
      (''exp'', JNum 4600), (''iss'', JStr ''felix''), (''jti'', JStr ''old-id'')]"

definition claims_epoch :: obj where
  "claims_epoch =
     [(''email'', JStr ''a@x.com''), (''iat'', JNum 0), (''exp'', JNum 3600),
      (''jti'', JStr ''old-id'')]"

text \<open>
  Three embed requests: two with the signature of their context (an agent no
  access-control entry names, and \<open>boss@x.com\<close>), one with a wrong signature over a
  context that does not decode.
\<close>

definition embed_agent :: AuthEmbedDto where
  "embed_agent = \<lparr>embed_context = ''agent'', embed_signature = ''agentkey''\<rparr>"

definition embed_boss :: AuthEmbedDto where
  "embed_boss = \<lparr>embed_context = ''boss'', embed_signature = ''bosskey''\<rparr>"

definition embed_junk :: AuthEmbedDto where
  "embed_junk = \<lparr>embed_context = ''junk'', embed_signature = ''bad''\<rparr>"

text \<open>
  The endpoint switched off, and auto-resend switched off; three message tokens: one no
  message carries, one of a message sent at time 0, one of a message sent a second ago.
\<close>

definition cfg_emailtoken_off :: config where
  "cfg_emailtoken_off = cfg0\<lparr>auth_emailtoken_enabled := False\<rparr>"

definition cfg_no_resend :: config where
  "cfg_no_resend = cfg0\<lparr>auth_emailtoken_auto_otp := False\<rparr>"

definition token_none :: AuthRepliersTokenDto where
  "token_none = \<lparr>token = ''none''\<rparr>"

definition token_old :: AuthRepliersTokenDto where
  "token_old = \<lparr>token = ''old''\<rparr>"

definition token_fresh :: AuthRepliersTokenDto where
  "token_fresh = \<lparr>token = ''fresh''\<rparr>"

text \<open>
  Two sign-ups: of \<open>a@x.com\<close>, whom the registry holds, and of \<open>lost@x.com\<close>, for whom the
  registry reports a conflict and then finds no record; and a login of the first.
\<close>

definition signup_ann :: UserSignupDto where
  "signup_ann =
     \<lparr>username = ''ann'', email = ''a@x.com'', firstName = ''Ann'', lastName = ''Lee'',
      signup_password = ''secret1''\<rparr>"

definition signup_lost :: UserSignupDto where
  "signup_lost =
     \<lparr>username = ''ann'', email = ''lost@x.com'', firstName = ''Ann'', lastName = ''Lee'',
      signup_password = ''secret1''\<rparr>"

definition login_ann :: UserLoginDto where
  "login_ann = \<lparr>login_identifier = ''a@x.com'', login_password = Some ''secret1''\<rparr>"

text \<open>What the identity provider of \<open>env0\<close> answers to a registration or a login.\<close>

definition strapi_auth0 :: jv where
  "strapi_auth0 = JObj [(''jwt'', JStr ''strapi-jwt''), (''user'', strapi31)]"

definition conflict409 :: jv where
  "conflict409 = JObj [(''message'', JStr ''Conflict''), (''status'', JNum 409)]"

text \<open>
  The profile of Ann: the provider's \<open>email\<close> and \<open>createdAt\<close> over the registry's, the
  registry's \<open>clientId\<close>, and neither \<open>fname\<close> nor \<open>provider\<close>, which are not allow-listed.
\<close>

definition profile_ann :: obj where
  "profile_ann =
     [(''id'', JNum 31), (''clientId'', JNum 7), (''username'', JStr ''ann''),
      (''email'', JStr ''ann@x.com''), (''confirmed'', JBool True), (''blocked'', JBool False),
      (''createdAt'', JStr ''2024'')]"

section \<open>Laws of the effect layer\<close>

lemma bindE_Inr: "m s = (Inr a, s1) \<Longrightarrow> bindE m f s = f a s1"
  by (simp add: bindE_def)

lemma bindE_Inl: "m s = (Inl e, s1) \<Longrightarrow> bindE m f s = (Inl e, s1)"
  by (simp add: bindE_def)

lemma bindE_returnE [simp]: "bindE (returnE a) f = f a"
  by (rule ext) (simp add: bindE_def returnE_def)

lemma bindE_throwE [simp]: "bindE (throwE e) f = throwE e"
  by (rule ext) (simp add: bindE_def throwE_def)

lemma bindE_liftE_Inr [simp]: "bindE (liftE (Inr a)) f = f a"
  by (rule ext) (simp add: bindE_def liftE_def)

lemma bindE_liftE_Inl [simp]: "bindE (liftE (Inl e)) f = throwE e"
  by (rule ext) (simp add: bindE_def liftE_def throwE_def)

lemma bindE_InrD:
  "bindE m f s = (Inr b, s') \<Longrightarrow> \<exists>a s1. m s = (Inr a, s1) \<and> f a s1 = (Inr b, s')"
  by (auto simp: bindE_def split: prod.splits sum.splits)

lemma bindE_logger_error [simp]:
  "bindE (logger_error d msg) f s = f () (s\<lparr>trace := trace s @ [Logged d msg]\<rparr>)"
  by (simp add: bindE_def logger_error_def)

lemma get_prop_absent: "map_of ob k = None \<Longrightarrow> get_prop ob k = JUndefined"
  by (simp add: get_prop_def)

lemma returnE_eq [simp]: "returnE a s = (r, s') \<longleftrightarrow> r = Inr a \<and> s' = s"
  by (auto simp: returnE_def)

lemma throwE_eq [simp]: "throwE e s = (r, s') \<longleftrightarrow> r = Inl e \<and> s' = s"
  by (auto simp: throwE_def)

lemma call_InrD:
  "call env m args s = (r, s') \<Longrightarrow>
     \<exists>w'. respond env (world s) m args = (r, w')
          \<and> s' = s\<lparr>world := w', trace := trace s @ [Called m args r]\<rparr>"
  by (auto simp: call_def split: prod.splits)

lemma call_respond:
  "respond env (world s) m args = (r, w') \<Longrightarrow>
     call env m args s = (r, s\<lparr>world := w', trace := trace s @ [Called m args r]\<rparr>)"
  by (simp add: call_def)

lemma bindE_call:
  "respond env (world s) m args = (Inr a, w') \<Longrightarrow>
     bindE (call env m args) f s
     = f a (s\<lparr>world := w', trace := trace s @ [Called m args (Inr a)]\<rparr>)"
  by (simp add: bindE_def call_def)

lemma bindE_assoc: "bindE (bindE m f) g = bindE m (\<lambda>x. bindE (f x) g)"
  by (rule ext) (simp add: bindE_def split: prod.splits sum.splits)

lemma liftE_InrD: "liftE x s = (Inr a, s') \<Longrightarrow> x = Inr a \<and> s' = s"
  by (simp add: liftE_def)

lemma dot_InrD: "dot v k = Inr a \<Longrightarrow> a = get_member v k \<and> \<not> nullish v"
  by (auto simp: dot_def split: if_splits)

lemma toString_InrD: "toString v = Inr a \<Longrightarrow> a = js_String v \<and> \<not> nullish v"
  by (auto simp: toString_def split: if_splits)

lemma catchE_InrD:
  "catchE m h s = (Inr a, s') \<Longrightarrow>
     m s = (Inr a, s') \<or> (\<exists>e s1. m s = (Inl e, s1) \<and> h e s1 = (Inr a, s'))"
  by (auto simp: catchE_def split: prod.splits sum.splits)

lemma bindE_catchE_Inl:
  "m s = (Inl e, s1) \<Longrightarrow> bindE (catchE m h) k s = bindE (h e) k s1"
  by (simp add: bindE_def catchE_def)

lemma bindE_keyv_get [simp]: "bindE (keyv_get k) f s = f (keyv_lookup s k) s"
  by (simp add: bindE_def keyv_get_def)

lemma bindE_keyv_set [simp]:
  "bindE (keyv_set k v ttl) f s =
     f () (s\<lparr>db := (db s)(k \<mapsto> (v, if ttl = 0 then None else Some (now s + ttl)))\<rparr>)"
  by (simp add: bindE_def keyv_set_def)

lemma bindE_keyv_delete [simp]:
  "bindE (keyv_delete k) f s = f () (s\<lparr>db := (db s)(k := None)\<rparr>)"
  by (simp add: bindE_def keyv_delete_def)

lemma bindE_Date_now [simp]: "bindE Date_now f s = f (now s) s"
  by (simp add: bindE_def Date_now_def)

lemma keyv_lookup_absent: "db s k = None \<Longrightarrow> keyv_lookup s k = JUndefined"
  by (simp add: keyv_lookup_def)

lemma keyv_lookup_frame [simp]:
  "keyv_lookup (s\<lparr>world := w\<rparr>) k = keyv_lookup s k"
  "keyv_lookup (s\<lparr>trace := tr\<rparr>) k = keyv_lookup s k"
  by (simp_all add: keyv_lookup_def split: option.splits prod.splits)

section \<open>Login without a password\<close>

text \<open>
  C10. A login request with an identifier and no password (none, or the empty text the
  guard \<open>params.password && params.identifier\<close> reads the same way) returns
  \<open>{token: undefined, user: null}\<close> and raises nothing. The state it ends in is the state
  it started in: no collaborator was called (identity provider, registry, messaging),
  nothing was stored, nothing was logged.
\<close>

theorem login_without_password:
  assumes "login_password params = None \<or> login_password params = Some []"
  shows "login cfg env params s = (Inr (JObj [(''token'', JUndefined), (''user'', JNull)]), s)"
  using assms by (auto simp: login_def returnE_def)

theorem login_without_password_witness:
  "login_password \<lparr>login_identifier = ''a@x.com'', login_password = None\<rparr> = None
   \<and> login cfg0 env0 \<lparr>login_identifier = ''a@x.com'', login_password = None\<rparr> s0
       = (Inr (JObj [(''token'', JUndefined), (''user'', JNull)]), s0)"
  using login_without_password
    [of "\<lparr>login_identifier = ''a@x.com'', login_password = None\<rparr>" cfg0 env0 s0]
  by simp

section \<open>Refresh\<close>

text \<open>
  C2. On a claims payload that lacks \<open>iat\<close> or lacks \<open>exp\<close>, \<open>refresh\<close> raises the
  \<open>ApiError\<close> built without a status, whose status is 500 (Internal). The state it ends
  in differs from the one it started in by one log entry only: no collaborator was
  called, so no token id was drawn, nothing was signed and nothing was revoked.
\<close>

theorem refresh_without_iat_or_exp:
  assumes "map_of payload ''iat'' = None \<or> map_of payload ''exp'' = None"
  shows "refresh cfg env payload s =
           (Inl (ApiError (JStr refresh_no_expiration) None),
            s\<lparr>trace := trace s @
                 [Logged (JObj [(''data'', JObj [(''payload'', JObj payload)])])
                    (''500 - [AuthService: refresh]: '' @ refresh_no_expiration)]\<rparr>)
         \<and> get_member (ApiError (JStr refresh_no_expiration) None) ''status'' = JNum 500"
proof -
  from assms have "\<not> truthy (get_prop payload ''iat'') \<or> \<not> truthy (get_prop payload ''exp'')"
    by (auto simp: get_prop_absent)
  then have "refresh cfg env payload s =
           (Inl (ApiError (JStr refresh_no_expiration) None),
            s\<lparr>trace := trace s @
                 [Logged (JObj [(''data'', JObj [(''payload'', JObj payload)])])
                    (''500 - [AuthService: refresh]: '' @ refresh_no_expiration)]\<rparr>)"
    unfolding refresh_def by (simp add: throwE_def)
  moreover have "get_member (ApiError (JStr refresh_no_expiration) None) ''status'' = JNum 500"
    by (simp add: ApiError_def)
  ultimately show ?thesis by simp
qed

theorem refresh_without_iat_or_exp_witness:
  "map_of [(''email'', JStr ''a@x.com''), (''exp'', JNum 4600), (''jti'', JStr ''old-id'')] ''iat''
     = None
   \<and> fst (refresh cfg0 env0
            [(''email'', JStr ''a@x.com''), (''exp'', JNum 4600), (''jti'', JStr ''old-id'')] s0)
       = Inl (ApiError (JStr refresh_no_expiration) None)
   \<and> world (snd (refresh cfg0 env0
            [(''email'', JStr ''a@x.com''), (''exp'', JNum 4600), (''jti'', JStr ''old-id'')] s0))
       = 0
   \<and> get_member (ApiError (JStr refresh_no_expiration) None) ''status'' = JNum 500"
  using refresh_without_iat_or_exp
    [of "[(''email'', JStr ''a@x.com''), (''exp'', JNum 4600), (''jti'', JStr ''old-id'')]"
        cfg0 env0 s0]
  by (simp add: s0_def)

section \<open>Token issuance\<close>

lemma generateToken_InrD:
  assumes "generateToken cfg env payload expiresIn s = (Inr tok, s')"
  shows "\<exists>pre signed dflt jwtid.
           (if app_disable_persistence cfg
            then pre = [] \<and> signed = payload \<and> dflt = auth_jwt_expire cfg
            else \<exists>acl. pre = [Called AclRepo_getUserAcl [get_prop payload ''email''] (Inr acl)]
                   \<and> signed = set_prop payload ''role'' (effective_role cfg acl payload)
                   \<and> dflt = override_expire
                              (getRoleOverride cfg (effective_role cfg acl payload))
                              (auth_jwt_expire cfg))
         \<and> trace s' = trace s @ pre @
               [Called Crypto_randomUUID [] (Inr jwtid),
                Called Jwt_sign
                  [JObj signed, signInOptions cfg (expires_or expiresIn dflt) jwtid]
                  (Inr tok)]
         \<and> db s' = db s \<and> now s' = now s"
proof (cases "app_disable_persistence cfg")
  case True
  with assms obtain jwtid s1 where
    u: "call env Crypto_randomUUID [] s = (Inr jwtid, s1)" and
    g: "call env Jwt_sign
          [JObj payload, signInOptions cfg (expires_or expiresIn (auth_jwt_expire cfg)) jwtid] s1
        = (Inr tok, s')"
    by (auto simp: generateToken_def dest!: bindE_InrD)
  from call_InrD [OF u] call_InrD [OF g] True show ?thesis
    by auto
next
  case False
  with assms obtain acl s1 jwtid s2 where
    a: "call env AclRepo_getUserAcl [get_prop payload ''email''] s = (Inr acl, s1)" and
    u: "call env Crypto_randomUUID [] s1 = (Inr jwtid, s2)" and
    g: "call env Jwt_sign
          [JObj (set_prop payload ''role'' (effective_role cfg acl payload)),
           signInOptions cfg
             (expires_or expiresIn
                (override_expire (getRoleOverride cfg (effective_role cfg acl payload))
                   (auth_jwt_expire cfg))) jwtid] s2
        = (Inr tok, s')"
    by (auto simp: generateToken_def Let_def dest!: bindE_InrD)
  from call_InrD [OF a] call_InrD [OF u] call_InrD [OF g] False show ?thesis
    by auto
qed

text \<open>
  C8, as amended. A successful \<open>generateToken\<close> makes these calls and no other. With
  persistence enabled it looks the access-control entry of the payload's email up once,
  and the role it signs is the entry's role when that is set, else the role already in
  the payload when that is set, else the default role; the expiry is the explicit one
  when the caller passed one, else that role's configured override, else the default.
  With persistence disabled there is no access-control lookup, the payload is signed as
  the caller supplied it (its role if it has one; no role is added when it has none), and
  the expiry is the explicit one when the caller passed one, else the default.
\<close>

theorem generateToken_role_and_expiry:
  assumes "generateToken cfg env payload expiresIn s = (Inr tok, s')"
  shows "\<exists>acl jwtid role role_expiry expiry.
           role = (if truthy (opt_dot acl ''role'') then opt_dot acl ''role''
                   else if truthy (get_prop payload ''role'') then get_prop payload ''role''
                   else JStr (UserRole_User cfg))
         \<and> role_expiry =
             (case getRoleOverride cfg role of
                None \<Rightarrow> auth_jwt_expire cfg
              | Some j \<Rightarrow>
                  (case expire j of
                     None \<Rightarrow> auth_jwt_expire cfg
                   | Some e \<Rightarrow> if e \<noteq> [] then e else auth_jwt_expire cfg))
         \<and> expiry =
             (case expiresIn of
                Some e \<Rightarrow>
                  if e \<noteq> [] then e
                  else if app_disable_persistence cfg then auth_jwt_expire cfg else role_expiry
              | None \<Rightarrow> if app_disable_persistence cfg then auth_jwt_expire cfg else role_expiry)
         \<and> trace s' =
             trace s
             @ (if app_disable_persistence cfg then []
                else [Called AclRepo_getUserAcl [get_prop payload ''email''] (Inr acl)])
             @ [Called Crypto_randomUUID [] (Inr jwtid),
                Called Jwt_sign
                  [JObj (if app_disable_persistence cfg then payload
                         else set_prop payload ''role'' role),
                   JObj [(''algorithm'', JStr ''RS256''), (''expiresIn'', JStr expiry),
                         (''issuer'', JStr (auth_jwt_issuer cfg)), (''jwtid'', jwtid)]]
                  (Inr tok)]"
proof -
  from generateToken_InrD [OF assms] obtain pre signed dflt jwtid where
    c: "if app_disable_persistence cfg
        then pre = [] \<and> signed = payload \<and> dflt = auth_jwt_expire cfg
        else \<exists>acl. pre = [Called AclRepo_getUserAcl [get_prop payload ''email''] (Inr acl)]
               \<and> signed = set_prop payload ''role'' (effective_role cfg acl payload)
               \<and> dflt = override_expire
                          (getRoleOverride cfg (effective_role cfg acl payload))
                          (auth_jwt_expire cfg)" and
    t: "trace s' = trace s @ pre @
          [Called Crypto_randomUUID [] (Inr jwtid),
           Called Jwt_sign
             [JObj signed, signInOptions cfg (expires_or expiresIn dflt) jwtid]
             (Inr tok)]"
    by blast
  show ?thesis
  proof (cases "app_disable_persistence cfg")
    case True
    with c have p: "pre = []" "signed = payload" "dflt = auth_jwt_expire cfg"
      by auto
    have e: "expires_or expiresIn (auth_jwt_expire cfg) =
               (case expiresIn of
                  Some e \<Rightarrow> if e \<noteq> [] then e else auth_jwt_expire cfg
                | None \<Rightarrow> auth_jwt_expire cfg)"
      by (simp add: expires_or_def)
    from True t p show ?thesis
      unfolding e [symmetric]
      apply (rule_tac x = JUndefined in exI)
      apply (rule_tac x = jwtid in exI)
      apply (simp add: signInOptions_def e [symmetric] cong: option.case_cong)
      done
  next
    case False
    with c obtain acl where
      p: "pre = [Called AclRepo_getUserAcl [get_prop payload ''email''] (Inr acl)]"
         "signed = set_prop payload ''role'' (effective_role cfg acl payload)"
         "dflt = override_expire (getRoleOverride cfg (effective_role cfg acl payload))
                   (auth_jwt_expire cfg)"
      by auto
    have r: "(if truthy (opt_dot acl ''role'') then opt_dot acl ''role''
                else if truthy (get_prop payload ''role'') then get_prop payload ''role''
                else JStr (UserRole_User cfg)) = effective_role cfg acl payload"
      by (simp add: effective_role_def js_or_def)
    have o: "\<And>ro. (case ro of
                None \<Rightarrow> auth_jwt_expire cfg
              | Some j \<Rightarrow>
                  (case expire j of
                     None \<Rightarrow> auth_jwt_expire cfg
                   | Some e \<Rightarrow> if e \<noteq> [] then e else auth_jwt_expire cfg))
             = override_expire ro (auth_jwt_expire cfg)"
      by (simp add: override_expire_def)
    have e: "\<And>d. (case expiresIn of
                  Some e \<Rightarrow> if e \<noteq> [] then e else d
                | None \<Rightarrow> d) = expires_or expiresIn d"
      by (simp add: expires_or_def)
    from False t p show ?thesis
      apply (rule_tac x = acl in exI)
      apply (rule_tac x = jwtid in exI)
      apply (simp only: r o)
      apply (simp add: signInOptions_def e)
      done
  qed
qed

theorem generateToken_role_and_expiry_witness:
  "fst (generateToken cfg0 env0 [(''email'', JStr ''boss@x.com''), (''role'', JStr ''agent'')]
          None s0) = Inr (JStr ''jwt-2'')
   \<and> sign_calls (trace (snd (generateToken cfg0 env0
          [(''email'', JStr ''boss@x.com''), (''role'', JStr ''agent'')] None s0)))
       = [(JObj [(''email'', JStr ''boss@x.com''), (''role'', JStr ''admin'')],
           JObj [(''algorithm'', JStr ''RS256''), (''expiresIn'', JStr ''1d''),
                 (''issuer'', JStr ''felix''), (''jwtid'', JStr ''uuid-1'')])]
   \<and> (\<exists>acl jwtid role role_expiry expiry.
           role = (if truthy (opt_dot acl ''role'') then opt_dot acl ''role''
                   else if truthy (get_prop [(''email'', JStr ''boss@x.com''), (''role'', JStr ''agent'')] ''role'')
                   then get_prop [(''email'', JStr ''boss@x.com''), (''role'', JStr ''agent'')] ''role''
                   else JStr (UserRole_User cfg0))
         \<and> role_expiry =
             (case getRoleOverride cfg0 role of
                None \<Rightarrow> auth_jwt_expire cfg0
              | Some j \<Rightarrow>
                  (case expire j of
                     None \<Rightarrow> auth_jwt_expire cfg0
                   | Some e \<Rightarrow> if e \<noteq> [] then e else auth_jwt_expire cfg0))
         \<and> expiry =
             (case None of
                Some e \<Rightarrow>
                  if e \<noteq> [] then e
                  else if app_disable_persistence cfg0 then auth_jwt_expire cfg0 else role_expiry
              | None \<Rightarrow> if app_disable_persistence cfg0 then auth_jwt_expire cfg0 else role_expiry)
         \<and> trace (snd (generateToken cfg0 env0
                [(''email'', JStr ''boss@x.com''), (''role'', JStr ''agent'')] None s0)) =
             trace s0
             @ (if app_disable_persistence cfg0 then []
                else [Called AclRepo_getUserAcl
                        [get_prop [(''email'', JStr ''boss@x.com''), (''role'', JStr ''agent'')] ''email'']
                        (Inr acl)])
             @ [Called Crypto_randomUUID [] (Inr jwtid),
                Called Jwt_sign
                  [JObj (if app_disable_persistence cfg0
                         then [(''email'', JStr ''boss@x.com''), (''role'', JStr ''agent'')]
                         else set_prop [(''email'', JStr ''boss@x.com''), (''role'', JStr ''agent'')]
                                ''role'' role),
                   JObj [(''algorithm'', JStr ''RS256''), (''expiresIn'', JStr expiry),
                         (''issuer'', JStr (auth_jwt_issuer cfg0)), (''jwtid'', jwtid)]]
                  (Inr (JStr ''jwt-2''))])"
proof -
  have f: "fst (generateToken cfg0 env0
             [(''email'', JStr ''boss@x.com''), (''role'', JStr ''agent'')] None s0)
           = Inr (JStr ''jwt-2'')"
    by code_simp
  have g: "sign_calls (trace (snd (generateToken cfg0 env0
          [(''email'', JStr ''boss@x.com''), (''role'', JStr ''agent'')] None s0)))
       = [(JObj [(''email'', JStr ''boss@x.com''), (''role'', JStr ''admin'')],
           JObj [(''algorithm'', JStr ''RS256''), (''expiresIn'', JStr ''1d''),
                 (''issuer'', JStr ''felix''), (''jwtid'', JStr ''uuid-1'')])]"
    by code_simp
  have h: "generateToken cfg0 env0
             [(''email'', JStr ''boss@x.com''), (''role'', JStr ''agent'')] None s0
           = (Inr (JStr ''jwt-2''),
              snd (generateToken cfg0 env0
                     [(''email'', JStr ''boss@x.com''), (''role'', JStr ''agent'')] None s0))"
    using f by (simp add: prod_eq_iff)
  from generateToken_role_and_expiry [OF h] f g show ?thesis
    by blast
qed

text \<open>
  The claim as stated fails twice. With persistence disabled and no role in the
  payload, the payload is signed without any role, not with the default one. And an
  explicit expiry (here \<open>60s\<close>) wins over the override configured for the role (\<open>7d\<close>).
\<close>

theorem generateToken_role_and_expiry_counterexample:
  "app_disable_persistence cfg_no_persistence
   \<and> sign_calls (trace (snd (generateToken cfg_no_persistence env0
          [(''email'', JStr ''a@x.com'')] None s0)))
       = [(JObj [(''email'', JStr ''a@x.com'')],
           JObj [(''algorithm'', JStr ''RS256''), (''expiresIn'', JStr ''1d''),
                 (''issuer'', JStr ''felix''), (''jwtid'', JStr ''uuid-0'')])]
   \<and> get_member (JObj [(''email'', JStr ''a@x.com'')]) ''role''
       \<noteq> JStr (UserRole_User cfg_no_persistence)
   \<and> getRoleOverride cfg0 (JStr ''agent'') = Some \<lparr>expire = Some ''7d'', issuer = None\<rparr>
   \<and> sign_calls (trace (snd (generateToken cfg0 env0
          [(''email'', JStr ''a@x.com''), (''role'', JStr ''agent'')] (Some ''60s'') s0)))
       = [(JObj [(''email'', JStr ''a@x.com''), (''role'', JStr ''agent'')],
           JObj [(''algorithm'', JStr ''RS256''), (''expiresIn'', JStr ''60s''),
                 (''issuer'', JStr ''felix''), (''jwtid'', JStr ''uuid-1'')])]"
  by code_simp

section \<open>One-time codes\<close>

lemma useOtp_absent:
  "\<not> truthy (keyv_lookup s c) \<Longrightarrow>
     useOtp cfg env \<lparr>code = c\<rparr> s = (Inl (ApiError (JStr otp_gone) (Some 403)), s)"
  by (simp add: useOtp_def bindE_def keyv_get_def)

lemma useOtp_present:
  assumes "truthy (keyv_lookup s c)"
    and "call env Clients_get [get_member (keyv_lookup s c) ''clientId''] s = (Inr user, s1)"
    and "\<not> nullish user" and "\<not> nullish (get_member user ''clientId'')"
    and "generateToken cfg env
           [(''email'', get_member user ''email''),
            (''sub'', JStr (js_String (get_member user ''clientId'')))] None s1
         = (Inr tok, s2)"
  shows "useOtp cfg env \<lparr>code = c\<rparr> s =
           (Inr (JObj [(''token'', tok), (''profile'', JObj (pick user userProfilKeys))]),
            s2\<lparr>db := (db s2)(c := None)\<rparr>)"
  using assms
  by (simp add: useOtp_def bindE_def keyv_get_def dot_def toString_def keyv_delete_def)

lemma useOtp_InrD:
  assumes "useOtp cfg env \<lparr>code = c\<rparr> s = (Inr r, s')"
  shows "truthy (keyv_lookup s c) \<and> db s' c = None"
proof -
  have t: "truthy (keyv_lookup s c)"
  proof (rule ccontr)
    assume "\<not> truthy (keyv_lookup s c)"
    from useOtp_absent [OF this] assms show False by simp
  qed
  with assms obtain s2 where "s' = s2\<lparr>db := (db s2)(c := None)\<rparr>"
    by (auto simp: useOtp_def keyv_get_def keyv_delete_def bindE_def
             split: prod.splits sum.splits if_splits)
  with t show ?thesis by simp
qed

text \<open>
  C1. One-time codes are single-use. A code the store does not answer (never issued,
  expired, or consumed) makes \<open>useOtp\<close> raise the 403 error and leaves the state as it
  was, so no token is issued. A code the store answers, with the registry returning the
  client and the token issued, makes \<open>useOtp\<close> return the token and the profile in a
  state whose store no longer has the code. And whenever \<open>useOtp\<close> succeeds the code
  was in the store and is gone afterwards, so a second call, at any later time and
  whatever the collaborators have done since, raises the 403 error.
\<close>

theorem useOtp_single_use:
  "(\<not> truthy (keyv_lookup s c) \<longrightarrow>
      useOtp cfg env \<lparr>code = c\<rparr> s = (Inl (ApiError (JStr otp_gone) (Some 403)), s))
   \<and> (\<forall>user s1 tok s2.
        truthy (keyv_lookup s c)
        \<and> call env Clients_get [get_member (keyv_lookup s c) ''clientId''] s = (Inr user, s1)
        \<and> \<not> nullish user \<and> \<not> nullish (get_member user ''clientId'')
        \<and> generateToken cfg env
             [(''email'', get_member user ''email''),
              (''sub'', JStr (js_String (get_member user ''clientId'')))] None s1
           = (Inr tok, s2)
        \<longrightarrow> useOtp cfg env \<lparr>code = c\<rparr> s =
              (Inr (JObj [(''token'', tok), (''profile'', JObj (pick user userProfilKeys))]),
               s2\<lparr>db := (db s2)(c := None)\<rparr>))
   \<and> (\<forall>r s'. useOtp cfg env \<lparr>code = c\<rparr> s = (Inr r, s') \<longrightarrow>
        truthy (keyv_lookup s c) \<and> db s' c = None
        \<and> (\<forall>s''. db s'' = db s' \<longrightarrow>
              useOtp cfg env \<lparr>code = c\<rparr> s''
              = (Inl (ApiError (JStr otp_gone) (Some 403)), s'')))"
proof (intro conjI allI impI)
  assume "\<not> truthy (keyv_lookup s c)"
  then show "useOtp cfg env \<lparr>code = c\<rparr> s = (Inl (ApiError (JStr otp_gone) (Some 403)), s)"
    by (rule useOtp_absent)
next
  fix user s1 tok s2
  assume "truthy (keyv_lookup s c)
        \<and> call env Clients_get [get_member (keyv_lookup s c) ''clientId''] s = (Inr user, s1)
        \<and> \<not> nullish user \<and> \<not> nullish (get_member user ''clientId'')
        \<and> generateToken cfg env
             [(''email'', get_member user ''email''),
              (''sub'', JStr (js_String (get_member user ''clientId'')))] None s1
           = (Inr tok, s2)"
  then show "useOtp cfg env \<lparr>code = c\<rparr> s =
              (Inr (JObj [(''token'', tok), (''profile'', JObj (pick user userProfilKeys))]),
               s2\<lparr>db := (db s2)(c := None)\<rparr>)"
    using useOtp_present [of s c env user s1 cfg tok s2] by blast
next
  fix r s'
  assume a: "useOtp cfg env \<lparr>code = c\<rparr> s = (Inr r, s')"
  from useOtp_InrD [OF a] show "truthy (keyv_lookup s c)" by simp
  from useOtp_InrD [OF a] show "db s' c = None" by simp
  fix s'' :: "'a st"
  assume "db s'' = db s'"
  with useOtp_InrD [OF a] have "db s'' c = None" by simp
  then have "\<not> truthy (keyv_lookup s'' c)" by (simp add: keyv_lookup_absent)
  then show "useOtp cfg env \<lparr>code = c\<rparr> s'' = (Inl (ApiError (JStr otp_gone) (Some 403)), s'')"
    by (rule useOtp_absent)
qed

theorem useOtp_single_use_witness:
  "truthy (keyv_lookup s0 ''123456'')
   \<and> useOtp cfg0 env0 \<lparr>code = ''123456''\<rparr> s0 =
       (Inr (JObj [(''token'', JStr ''jwt-3''),
                   (''profile'', JObj (pick client7 userProfilKeys))]),
        s0_issued\<lparr>db := (db s0_issued)(''123456'' := None)\<rparr>)
   \<and> db (snd (useOtp cfg0 env0 \<lparr>code = ''123456''\<rparr> s0)) ''123456'' = None
   \<and> useOtp cfg0 env0 \<lparr>code = ''123456''\<rparr> (snd (useOtp cfg0 env0 \<lparr>code = ''123456''\<rparr> s0))
       = (Inl (ApiError (JStr otp_gone) (Some 403)),
          snd (useOtp cfg0 env0 \<lparr>code = ''123456''\<rparr> s0))
   \<and> \<not> truthy (keyv_lookup s0 ''000000'')
   \<and> useOtp cfg0 env0 \<lparr>code = ''000000''\<rparr> s0
       = (Inl (ApiError (JStr otp_gone) (Some 403)), s0)"
proof -
  note inst = useOtp_single_use [of _ _ cfg0 env0]
  have present: "truthy (keyv_lookup s0 ''123456'')"
    by code_simp
  have absent: "\<not> truthy (keyv_lookup s0 ''000000'')"
    by code_simp
  have id7: "get_member (keyv_lookup s0 ''123456'') ''clientId'' = JNum 7"
    by code_simp
  have "fst (call env0 Clients_get [JNum 7] s0) = Inr client7"
    by code_simp
  then have fetched:
    "call env0 Clients_get [get_member (keyv_lookup s0 ''123456'') ''clientId''] s0
     = (Inr client7, s0_fetched)"
    by (simp add: id7 s0_fetched_def prod_eq_iff)
  have shape: "\<not> nullish client7" "\<not> nullish (get_member client7 ''clientId'')"
    by code_simp+
  have payload:
    "[(''email'', get_member client7 ''email''),
      (''sub'', JStr (js_String (get_member client7 ''clientId'')))]
     = [(''email'', JStr ''a@x.com''), (''sub'', JStr ''7'')]"
    by code_simp
  have "fst (generateToken cfg0 env0 [(''email'', JStr ''a@x.com''), (''sub'', JStr ''7'')] None
               s0_fetched) = Inr (JStr ''jwt-3'')"
    by code_simp
  then have issued:
    "generateToken cfg0 env0
       [(''email'', get_member client7 ''email''),
        (''sub'', JStr (js_String (get_member client7 ''clientId'')))] None s0_fetched
     = (Inr (JStr ''jwt-3''), s0_issued)"
    by (simp add: payload s0_issued_def prod_eq_iff)
  from inst [of s0 "''123456''"] present fetched shape issued
  have first: "useOtp cfg0 env0 \<lparr>code = ''123456''\<rparr> s0 =
       (Inr (JObj [(''token'', JStr ''jwt-3''),
                   (''profile'', JObj (pick client7 userProfilKeys))]),
        s0_issued\<lparr>db := (db s0_issued)(''123456'' := None)\<rparr>)"
    by blast
  then have first':
    "useOtp cfg0 env0 \<lparr>code = ''123456''\<rparr> s0 =
       (Inr (JObj [(''token'', JStr ''jwt-3''),
                   (''profile'', JObj (pick client7 userProfilKeys))]),
        snd (useOtp cfg0 env0 \<lparr>code = ''123456''\<rparr> s0))"
    by simp
  from inst [of s0 "''123456''"] first'
  have second:
    "db (snd (useOtp cfg0 env0 \<lparr>code = ''123456''\<rparr> s0)) ''123456'' = None"
    "useOtp cfg0 env0 \<lparr>code = ''123456''\<rparr> (snd (useOtp cfg0 env0 \<lparr>code = ''123456''\<rparr> s0))
       = (Inl (ApiError (JStr otp_gone) (Some 403)),
          snd (useOtp cfg0 env0 \<lparr>code = ''123456''\<rparr> s0))"
    by blast+
  from inst [of s0 "''000000''"] absent
  have never: "useOtp cfg0 env0 \<lparr>code = ''000000''\<rparr> s0
       = (Inl (ApiError (JStr otp_gone) (Some 403)), s0)"
    by blast
  from present first second absent never show ?thesis
    by blast
qed

section \<open>Sending a code\<close>

lemma otpSendRateOpened_closed:
  "truthy (keyv_lookup s (otpSentKey clientId)) \<Longrightarrow>
     otpSendRateOpened clientId s =
       (Inl (ApiError (JStr otp_wait) (Some 403)),
        s\<lparr>trace := trace s @
             [Logged (JObj [(''data'', JObj [(''clientId'', clientId)])])
                (''403 - [AuthService: otpSendRateOpened]: '' @ otp_wait)]\<rparr>)"
  by (simp add: otpSendRateOpened_def)

lemma otpSendRateOpened_open:
  "\<not> truthy (keyv_lookup s (otpSentKey clientId)) \<Longrightarrow>
     otpSendRateOpened clientId s = (Inr (), s)"
  by (simp add: otpSendRateOpened_def)

lemma sendOtp_closed:
  "truthy (keyv_lookup s (otpSentKey clientId)) \<Longrightarrow>
     sendOtp cfg env clientId agentId s =
       (Inl (ApiError (JStr otp_wait) (Some 403)),
        s\<lparr>trace := trace s @
             [Logged (JObj [(''data'', JObj [(''clientId'', clientId)])])
                (''403 - [AuthService: otpSendRateOpened]: '' @ otp_wait)]\<rparr>)"
  by (simp add: sendOtp_def Let_def bindE_Inl [OF otpSendRateOpened_closed])

lemma sendOtp_open:
  assumes "\<not> truthy (keyv_lookup s (otpSentKey clientId))"
    and "respond env (world s) Codegen_generate [] = (Inr otp, w1)"
    and "respond env w1 Messages_send
           [JObj [(''agentId'', if agentId = JUndefined then repliers_clients_defaultAgentId cfg
                               else agentId),
                  (''clientId'', clientId), (''sender'', JStr ''agent''),
                  (''content'', formatOtpMessageContent cfg otp)]] = (Inr m, w2)"
  shows "sendOtp cfg env clientId agentId s =
           (Inr otp,
            s\<lparr>world := w2,
              db := (db s)
                (js_String otp \<mapsto>
                   (JObj [(''clientId'', clientId)],
                    if auth_otp_ttl_ms cfg = 0 then None
                    else Some (now s + auth_otp_ttl_ms cfg)),
                 otpSentKey clientId \<mapsto>
                   (JNum (now s),
                    if auth_otp_resend_ttl_ms cfg = 0 then None
                    else Some (now s + auth_otp_resend_ttl_ms cfg))),
              trace := trace s @
                [Called Codegen_generate [] (Inr otp),
                 Called Messages_send
                   [JObj [(''agentId'', if agentId = JUndefined
                                       then repliers_clients_defaultAgentId cfg else agentId),
                          (''clientId'', clientId), (''sender'', JStr ''agent''),
                          (''content'', formatOtpMessageContent cfg otp)]]
                   (Inr m)]\<rparr>)"
  using assms
  by (simp add: sendOtp_def Let_def bindE_Inr [OF otpSendRateOpened_open] bindE_call)

text \<open>
  C7. While the store answers the key \<open>otp_sent_<clientId>\<close> with a mark (a truthy
  value, as every timestamp but 0 is), \<open>sendOtp\<close> raises the 403 rate-limit error; the
  state it ends in differs from the one it started in by one log entry only, so no code
  was generated, stored or sent, and nothing about any code in the store is asked. When
  the store does not answer the key, and the code generator and the messaging provider
  answer, \<open>sendOtp\<close> stores the code with the client id under the code's time to live,
  stores the mark under the resend time to live, sends the message and returns the code.
\<close>

theorem sendOtp_cooldown:
  "(truthy (keyv_lookup s (otpSentKey clientId)) \<longrightarrow>
      sendOtp cfg env clientId agentId s =
        (Inl (ApiError (JStr otp_wait) (Some 403)),
         s\<lparr>trace := trace s @
              [Logged (JObj [(''data'', JObj [(''clientId'', clientId)])])
                 (''403 - [AuthService: otpSendRateOpened]: '' @ otp_wait)]\<rparr>))
   \<and> (\<forall>otp w1 m w2.
        \<not> truthy (keyv_lookup s (otpSentKey clientId))
        \<and> respond env (world s) Codegen_generate [] = (Inr otp, w1)
        \<and> respond env w1 Messages_send
             [JObj [(''agentId'', if agentId = JUndefined
                                 then repliers_clients_defaultAgentId cfg else agentId),
                    (''clientId'', clientId), (''sender'', JStr ''agent''),
                    (''content'', formatOtpMessageContent cfg otp)]] = (Inr m, w2)
        \<longrightarrow>
        sendOtp cfg env clientId agentId s =
          (Inr otp,
           s\<lparr>world := w2,
             db := (db s)
               (js_String otp \<mapsto>
                  (JObj [(''clientId'', clientId)],
                   if auth_otp_ttl_ms cfg = 0 then None
                   else Some (now s + auth_otp_ttl_ms cfg)),
                otpSentKey clientId \<mapsto>
                  (JNum (now s),
                   if auth_otp_resend_ttl_ms cfg = 0 then None
                   else Some (now s + auth_otp_resend_ttl_ms cfg))),
             trace := trace s @
               [Called Codegen_generate [] (Inr otp),
                Called Messages_send
                  [JObj [(''agentId'', if agentId = JUndefined
                                      then repliers_clients_defaultAgentId cfg else agentId),
                         (''clientId'', clientId), (''sender'', JStr ''agent''),
                         (''content'', formatOtpMessageContent cfg otp)]]
                  (Inr m)]\<rparr>))"
  using sendOtp_closed [of s clientId cfg env agentId]
        sendOtp_open [of s clientId env _ _ agentId cfg]
  by blast

theorem sendOtp_cooldown_witness:
  "truthy (keyv_lookup s_cooldown (otpSentKey (JNum 7)))
   \<and> keyv_lookup s_cooldown ''424242'' = JUndefined
   \<and> sendOtp cfg0 env0 (JNum 7) JUndefined s_cooldown =
       (Inl (ApiError (JStr otp_wait) (Some 403)),
        s_cooldown\<lparr>trace := trace s_cooldown @
              [Logged (JObj [(''data'', JObj [(''clientId'', JNum 7)])])
                 (''403 - [AuthService: otpSendRateOpened]: '' @ otp_wait)]\<rparr>)
   \<and> \<not> truthy (keyv_lookup s0 (otpSentKey (JNum 7)))
   \<and> sendOtp cfg0 env0 (JNum 7) JUndefined s0 =
       (Inr (JStr ''424242''),
        s0\<lparr>world := 2,
           db := (db s0)
             (''424242'' \<mapsto> (JObj [(''clientId'', JNum 7)], Some 1600000),
              ''otp_sent_7'' \<mapsto> (JNum 1000000, Some 1060000)),
           trace :=
             [Called Codegen_generate [] (Inr (JStr ''424242'')),
              Called Messages_send
                [JObj [(''agentId'', JNum 1), (''clientId'', JNum 7), (''sender'', JStr ''agent''),
                       (''content'',
                        JObj [(''message'', JStr ''Sign in''),
                              (''links'', JArr [JStr ''https://app/otp?code=424242''])])]]
                (Inr (JObj [(''messageId'', JNum 1)]))]\<rparr>)"
proof -
  have live: "truthy (keyv_lookup s_cooldown (otpSentKey (JNum 7)))"
    by code_simp
  have expired: "keyv_lookup s_cooldown ''424242'' = JUndefined"
    by code_simp
  have free: "\<not> truthy (keyv_lookup s0 (otpSentKey (JNum 7)))"
    by code_simp
  have gen: "respond env0 (world s0) Codegen_generate [] = (Inr (JStr ''424242''), 1)"
    by code_simp
  have send: "respond env0 1 Messages_send
             [JObj [(''agentId'', if JUndefined = JUndefined
                                 then repliers_clients_defaultAgentId cfg0 else JUndefined),
                    (''clientId'', JNum 7), (''sender'', JStr ''agent''),
                    (''content'', formatOtpMessageContent cfg0 (JStr ''424242''))]]
             = (Inr (JObj [(''messageId'', JNum 1)]), 2)"
    by code_simp
  from sendOtp_cooldown [of s_cooldown "JNum 7" cfg0 env0 JUndefined] live
  have closed: "sendOtp cfg0 env0 (JNum 7) JUndefined s_cooldown =
       (Inl (ApiError (JStr otp_wait) (Some 403)),
        s_cooldown\<lparr>trace := trace s_cooldown @
              [Logged (JObj [(''data'', JObj [(''clientId'', JNum 7)])])
                 (''403 - [AuthService: otpSendRateOpened]: '' @ otp_wait)]\<rparr>)"
    by blast
  from sendOtp_cooldown [of s0 "JNum 7" cfg0 env0 JUndefined] free gen send
  have "sendOtp cfg0 env0 (JNum 7) JUndefined s0 =
          (Inr (JStr ''424242''),
           s0\<lparr>world := 2,
             db := (db s0)
               (js_String (JStr ''424242'') \<mapsto>
                  (JObj [(''clientId'', JNum 7)],
                   if auth_otp_ttl_ms cfg0 = 0 then None
                   else Some (now s0 + auth_otp_ttl_ms cfg0)),
                otpSentKey (JNum 7) \<mapsto>
                  (JNum (now s0),
                   if auth_otp_resend_ttl_ms cfg0 = 0 then None
                   else Some (now s0 + auth_otp_resend_ttl_ms cfg0))),
             trace := trace s0 @
               [Called Codegen_generate [] (Inr (JStr ''424242'')),
                Called Messages_send
                  [JObj [(''agentId'', if JUndefined = JUndefined
                                      then repliers_clients_defaultAgentId cfg0 else JUndefined),
                         (''clientId'', JNum 7), (''sender'', JStr ''agent''),
                         (''content'', formatOtpMessageContent cfg0 (JStr ''424242''))]]
                  (Inr (JObj [(''messageId'', JNum 1)]))]\<rparr>)"
    by blast
  then have opened: "sendOtp cfg0 env0 (JNum 7) JUndefined s0 =
       (Inr (JStr ''424242''),
        s0\<lparr>world := 2,
           db := (db s0)
             (''424242'' \<mapsto> (JObj [(''clientId'', JNum 7)], Some 1600000),
              ''otp_sent_7'' \<mapsto> (JNum 1000000, Some 1060000)),
           trace :=
             [Called Codegen_generate [] (Inr (JStr ''424242'')),
              Called Messages_send
                [JObj [(''agentId'', JNum 1), (''clientId'', JNum 7), (''sender'', JStr ''agent''),
                       (''content'',
                        JObj [(''message'', JStr ''Sign in''),
                              (''links'', JArr [JStr ''https://app/otp?code=424242''])])]]
                (Inr (JObj [(''messageId'', JNum 1)]))]\<rparr>)"
    by (simp add: cfg0_def s0_def otpSentKey_def string_of_int_def digit_char_def
          formatOtpMessageContent_def Let_def)
  from live expired closed free opened show ?thesis
    by blast
qed

section \<open>Refresh of a token\<close>

lemma get_prop_omit:
  "get_prop (omit ks ob) k = (if k \<in> set ks then JUndefined else get_prop ob k)"
proof (induction ob)
  case Nil
  show ?case by (simp add: get_prop_def omit_def)
next
  case (Cons p ob)
  then show ?case
    by (cases p) (auto simp: get_prop_def omit_def)
qed

lemma expires_or_seconds [simp]: "expires_or (Some (t @ ''s'')) d = t @ ''s''"
  by (simp add: expires_or_def)

lemma refresh_InrD:
  assumes iat: "get_prop payload ''iat'' = JNum i" "i \<noteq> 0"
    and exp: "get_prop payload ''exp'' = JNum e" "e \<noteq> 0"
    and run: "refresh cfg env payload s = (Inr r, s')"
  shows "\<exists>tok s1.
           generateToken cfg env (omit [''iat'', ''exp'', ''iss'', ''jti''] payload)
             (Some (string_of_int (e - i) @ ''s'')) s = (Inr tok, s1)
         \<and> r = JObj [(''token'', tok)]
         \<and> (if truthy (get_prop payload ''jti'')
             then \<exists>revoked. trace s' = trace s1 @
                    [Called BlocklistRepository_create [get_prop payload ''jti'', JNum e]
                       (Inr revoked)]
             else trace s' = trace s1)"
proof -
  have eq: "refresh cfg env payload s =
      bindE (generateToken cfg env (omit [''iat'', ''exp'', ''iss'', ''jti''] payload)
               (Some (string_of_int (e - i) @ ''s'')))
        (\<lambda>tok. bindE (if truthy (get_prop payload ''jti'')
               then bindE (call env BlocklistRepository_create [get_prop payload ''jti'', JNum e])
                      (\<lambda>_. returnE ())
               else returnE ())
          (\<lambda>_. returnE (JObj [(''token'', tok)]))) s"
    using iat exp by (simp add: refresh_def Let_def js_minus_def string_of_number_def)
  from bindE_InrD [OF run [unfolded eq]] obtain tok s1 where
    g: "generateToken cfg env (omit [''iat'', ''exp'', ''iss'', ''jti''] payload)
          (Some (string_of_int (e - i) @ ''s'')) s = (Inr tok, s1)" and
    k: "bindE (if truthy (get_prop payload ''jti'')
               then bindE (call env BlocklistRepository_create [get_prop payload ''jti'', JNum e])
                      (\<lambda>_. returnE ())
               else returnE ())
          (\<lambda>_. returnE (JObj [(''token'', tok)])) s1 = (Inr r, s')"
    by blast
  show ?thesis
  proof (cases "truthy (get_prop payload ''jti'')")
    case True
    with k obtain revoked s2 where
      c: "call env BlocklistRepository_create [get_prop payload ''jti'', JNum e] s1
          = (Inr revoked, s2)" and
      e: "r = JObj [(''token'', tok)]" "s' = s2"
      by (auto dest!: bindE_InrD)
    from call_InrD [OF c] e g True show ?thesis
      by auto
  next
    case False
    with k g show ?thesis by auto
  qed
qed

text \<open>
  C3, as amended. On claims whose \<open>iat\<close> and \<open>exp\<close> are non-zero numbers, a \<open>refresh\<close>
  that returns has made these calls and no other: the issuance of a token for the old
  claims without \<open>iat\<close>, \<open>exp\<close>, \<open>iss\<close> and \<open>jti\<close>, with the explicit expiry
  \<open>exp - iat\<close> seconds, and then, when the old claims carry a \<open>jti\<close>, the revocation of
  that \<open>jti\<close> with the old \<open>exp\<close>; without a \<open>jti\<close> it revokes nothing. The payload
  signed is those claims as they are when persistence is disabled; otherwise their
  role is the one resolved again at issuance.
\<close>

theorem refresh_resigns_and_revokes:
  assumes "get_prop payload ''iat'' = JNum i" and "i \<noteq> 0"
    and "get_prop payload ''exp'' = JNum e" and "e \<noteq> 0"
    and "refresh cfg env payload s = (Inr r, s')"
  shows "\<exists>tok acl jwtid role revoked.
           r = JObj [(''token'', tok)]
         \<and> role = (if truthy (opt_dot acl ''role'') then opt_dot acl ''role''
                   else if truthy (get_prop payload ''role'') then get_prop payload ''role''
                   else JStr (UserRole_User cfg))
         \<and> trace s' =
             trace s
             @ (if app_disable_persistence cfg then []
                else [Called AclRepo_getUserAcl [get_prop payload ''email''] (Inr acl)])
             @ [Called Crypto_randomUUID [] (Inr jwtid),
                Called Jwt_sign
                  [JObj (if app_disable_persistence cfg
                         then omit [''iat'', ''exp'', ''iss'', ''jti''] payload
                         else set_prop (omit [''iat'', ''exp'', ''iss'', ''jti''] payload)
                                ''role'' role),
                   JObj [(''algorithm'', JStr ''RS256''),
                         (''expiresIn'', JStr (string_of_int (e - i) @ ''s'')),
                         (''issuer'', JStr (auth_jwt_issuer cfg)), (''jwtid'', jwtid)]]
                  (Inr tok)]
             @ (if truthy (get_prop payload ''jti'')
                then [Called BlocklistRepository_create [get_prop payload ''jti'', JNum e]
                        (Inr revoked)]
                else [])"
proof -
  let ?new = "omit [''iat'', ''exp'', ''iss'', ''jti''] payload"
  from refresh_InrD [OF assms] obtain tok s1 where
    g: "generateToken cfg env ?new (Some (string_of_int (e - i) @ ''s'')) s = (Inr tok, s1)" and
    r: "r = JObj [(''token'', tok)]" and
    v: "if truthy (get_prop payload ''jti'')
        then \<exists>revoked. trace s' = trace s1 @
               [Called BlocklistRepository_create [get_prop payload ''jti'', JNum e]
                  (Inr revoked)]
        else trace s' = trace s1"
    by blast
  from generateToken_InrD [OF g] obtain pre signed dflt jwtid where
    c: "if app_disable_persistence cfg
        then pre = [] \<and> signed = ?new \<and> dflt = auth_jwt_expire cfg
        else \<exists>acl. pre = [Called AclRepo_getUserAcl [get_prop ?new ''email''] (Inr acl)]
               \<and> signed = set_prop ?new ''role'' (effective_role cfg acl ?new)
               \<and> dflt = override_expire (getRoleOverride cfg (effective_role cfg acl ?new))
                          (auth_jwt_expire cfg)" and
    t: "trace s1 = trace s @ pre @
          [Called Crypto_randomUUID [] (Inr jwtid),
           Called Jwt_sign
             [JObj signed,
              signInOptions cfg (expires_or (Some (string_of_int (e - i) @ ''s'')) dflt) jwtid]
             (Inr tok)]"
    by blast
  obtain acl where
    p: "pre = (if app_disable_persistence cfg then []
               else [Called AclRepo_getUserAcl [get_prop payload ''email''] (Inr acl)])"
       "signed = (if app_disable_persistence cfg then ?new
                  else set_prop ?new ''role''
                         (if truthy (opt_dot acl ''role'') then opt_dot acl ''role''
                          else if truthy (get_prop payload ''role'') then get_prop payload ''role''
                          else JStr (UserRole_User cfg)))"
  proof (cases "app_disable_persistence cfg")
    case True
    with c that [of JUndefined] show ?thesis by simp
  next
    case False
    with c obtain acl where
      "pre = [Called AclRepo_getUserAcl [get_prop ?new ''email''] (Inr acl)]"
      "signed = set_prop ?new ''role'' (effective_role cfg acl ?new)"
      by auto
    with False that [of acl] show ?thesis
      by (simp add: get_prop_omit effective_role_def js_or_def)
  qed
  obtain revoked where
    w: "trace s' = trace s1 @
          (if truthy (get_prop payload ''jti'')
           then [Called BlocklistRepository_create [get_prop payload ''jti'', JNum e]
                   (Inr revoked)]
           else [])"
    using v by (cases "truthy (get_prop payload ''jti'')") auto
  show ?thesis
    apply (rule_tac x = tok in exI)
    apply (rule_tac x = acl in exI)
    apply (rule_tac x = jwtid in exI)
    apply (simp only: ex_simps simp_thms)
    apply (rule conjI)
     apply (rule r)
    apply (rule_tac x = revoked in exI)
    apply (simp only: w t p signInOptions_def expires_or_seconds append_assoc)
    done
qed

theorem refresh_resigns_and_revokes_witness:
  "get_prop claims_boss ''iat'' = JNum 1000 \<and> get_prop claims_boss ''exp'' = JNum 4600
   \<and> fst (refresh cfg0 env0 claims_boss s0) = Inr (JObj [(''token'', JStr ''jwt-2'')])
   \<and> callees (trace (snd (refresh cfg0 env0 claims_boss s0)))
       = [AclRepo_getUserAcl, Crypto_randomUUID, Jwt_sign, BlocklistRepository_create]
   \<and> (\<exists>tok acl jwtid role revoked.
           JObj [(''token'', JStr ''jwt-2'')] = JObj [(''token'', tok)]
         \<and> role = (if truthy (opt_dot acl ''role'') then opt_dot acl ''role''
                   else if truthy (get_prop claims_boss ''role'')
                   then get_prop claims_boss ''role''
                   else JStr (UserRole_User cfg0))
         \<and> trace (snd (refresh cfg0 env0 claims_boss s0)) =
             trace s0
             @ (if app_disable_persistence cfg0 then []
                else [Called AclRepo_getUserAcl [get_prop claims_boss ''email''] (Inr acl)])
             @ [Called Crypto_randomUUID [] (Inr jwtid),
                Called Jwt_sign
                  [JObj (if app_disable_persistence cfg0
                         then omit [''iat'', ''exp'', ''iss'', ''jti''] claims_boss
                         else set_prop (omit [''iat'', ''exp'', ''iss'', ''jti''] claims_boss)
                                ''role'' role),
                   JObj [(''algorithm'', JStr ''RS256''),
                         (''expiresIn'', JStr (string_of_int (4600 - 1000) @ ''s'')),
                         (''issuer'', JStr (auth_jwt_issuer cfg0)), (''jwtid'', jwtid)]]
                  (Inr tok)]
             @ (if truthy (get_prop claims_boss ''jti'')
                then [Called BlocklistRepository_create [get_prop claims_boss ''jti'', JNum 4600]
                        (Inr revoked)]
                else []))"
proof -
  have i: "get_prop claims_boss ''iat'' = JNum 1000" and e: "get_prop claims_boss ''exp'' = JNum 4600"
    by code_simp+
  have f: "fst (refresh cfg0 env0 claims_boss s0) = Inr (JObj [(''token'', JStr ''jwt-2'')])"
    by code_simp
  have c: "callees (trace (snd (refresh cfg0 env0 claims_boss s0)))
       = [AclRepo_getUserAcl, Crypto_randomUUID, Jwt_sign, BlocklistRepository_create]"
    by code_simp
  have h: "refresh cfg0 env0 claims_boss s0
           = (Inr (JObj [(''token'', JStr ''jwt-2'')]), snd (refresh cfg0 env0 claims_boss s0))"
    using f by (simp add: prod_eq_iff)
  have nz: "(1000::int) \<noteq> 0" "(4600::int) \<noteq> 0"
    by simp_all
  from refresh_resigns_and_revokes [OF i nz(1) e nz(2) h] i e f c show ?thesis
    by blast
qed

text \<open>
  The claim as stated fails twice. The claims of \<open>boss@x.com\<close> carry the role
  \<open>user\<close>, the access-control table now says \<open>admin\<close>, and the refreshed token is
  signed with \<open>admin\<close>: its payload is not the old claims without the four keys. And
  claims that contain \<open>iat\<close> with the value 0 are read as lacking it: nothing is signed.
\<close>

theorem refresh_resigns_and_revokes_counterexample:
  "get_prop claims_boss ''iat'' = JNum 1000 \<and> get_prop claims_boss ''exp'' = JNum 4600
   \<and> omit [''iat'', ''exp'', ''iss'', ''jti''] claims_boss
       = [(''email'', JStr ''boss@x.com''), (''role'', JStr ''user'')]
   \<and> sign_calls (trace (snd (refresh cfg0 env0 claims_boss s0)))
       = [(JObj [(''email'', JStr ''boss@x.com''), (''role'', JStr ''admin'')],
           JObj [(''algorithm'', JStr ''RS256''), (''expiresIn'', JStr ''3600s''),
                 (''issuer'', JStr ''felix''), (''jwtid'', JStr ''uuid-1'')])]
   \<and> get_prop claims_epoch ''iat'' = JNum 0 \<and> get_prop claims_epoch ''exp'' = JNum 3600
   \<and> fst (refresh cfg0 env0 claims_epoch s0) = Inl (ApiError (JStr refresh_no_expiration) None)
   \<and> sign_calls (trace (snd (refresh cfg0 env0 claims_epoch s0))) = []"
  by code_simp

section \<open>Embed login\<close>

lemma embedLogin_invalid:
  "\<not> isFromFollowUpBoss env (embed_context p) (embed_signature p) (boss_system_key cfg) \<Longrightarrow>
     embedLogin cfg env p s = (Inl (ApiError (JStr ''Invalid signature'') (Some 401)), s)"
  by (simp add: embedLogin_def)

lemma embedLogin_InrD:
  assumes run: "embedLogin cfg env p s = (Inr r, s')"
  shows "isFromFollowUpBoss env (embed_context p) (embed_signature p) (boss_system_key cfg)
       \<and> (\<exists>decoded tok.
             JSON_parse_base64 env (embed_context p) = Inr decoded
           \<and> generateToken cfg env
                [(''email'', get_member (get_member decoded ''user'') ''email''),
                 (''role'', JStr (UserRole_Agent cfg))] None s = (Inr tok, s')
           \<and> r = JObj [(''jwt'', tok),
                        (''clientSignature'',
                         JStr (calcSignature env
                                 (js_String (get_member (get_member decoded ''person'') ''id''))
                                 (auth_agents_signature_salt cfg)))])"
proof -
  have v: "isFromFollowUpBoss env (embed_context p) (embed_signature p) (boss_system_key cfg)"
  proof (rule ccontr)
    assume "\<not> isFromFollowUpBoss env (embed_context p) (embed_signature p) (boss_system_key cfg)"
    from embedLogin_invalid [OF this] run show False by simp
  qed
  from run v show ?thesis
    unfolding embedLogin_def
    by (auto dest!: bindE_InrD liftE_InrD dot_InrD toString_InrD)
qed

lemma agent_payload_role:
  "set_prop [(''email'', e), (''role'', a)] ''role'' r = [(''email'', e), (''role'', r)]"
  by (simp add: set_prop_def)

lemma agent_effective_role:
  "effective_role cfg acl [(''email'', e), (''role'', JStr a)] =
     (if truthy (opt_dot acl ''role'') then opt_dot acl ''role''
      else if a \<noteq> [] then JStr a else JStr (UserRole_User cfg))"
  by (simp add: effective_role_def js_or_def get_prop_def)

text \<open>
  C6, as amended. \<open>embedLogin\<close> checks the signature over the context with the system key
  first: when the check fails it raises the 401 error in the unchanged state, whatever
  the context decodes to, so nothing is issued. When it returns, the signature was valid,
  the context decoded, and the result holds a token and the signature derived from the
  embedded person's id and the agents salt, and no profile; the only calls made are those
  of one token issuance for the embedded user's email. The role requested is Agent. The
  role signed is Agent when persistence is disabled or the access-control entry of that
  email sets no role; otherwise it is the role of that entry.
\<close>

theorem embedLogin_verifies_then_issues:
  "(\<not> isFromFollowUpBoss env (embed_context p) (embed_signature p) (boss_system_key cfg) \<longrightarrow>
      embedLogin cfg env p s = (Inl (ApiError (JStr ''Invalid signature'') (Some 401)), s))
   \<and> (\<forall>r s'. embedLogin cfg env p s = (Inr r, s') \<longrightarrow>
        isFromFollowUpBoss env (embed_context p) (embed_signature p) (boss_system_key cfg)
        \<and> (\<exists>decoded tok acl jwtid role expiry.
              JSON_parse_base64 env (embed_context p) = Inr decoded
            \<and> r = JObj [(''jwt'', tok),
                         (''clientSignature'',
                          JStr (calcSignature env
                                  (js_String (get_member (get_member decoded ''person'') ''id''))
                                  (auth_agents_signature_salt cfg)))]
            \<and> role = (if app_disable_persistence cfg then JStr (UserRole_Agent cfg)
                      else if truthy (opt_dot acl ''role'') then opt_dot acl ''role''
                      else if UserRole_Agent cfg \<noteq> [] then JStr (UserRole_Agent cfg)
                      else JStr (UserRole_User cfg))
            \<and> trace s' =
                trace s
                @ (if app_disable_persistence cfg then []
                   else [Called AclRepo_getUserAcl
                           [get_member (get_member decoded ''user'') ''email''] (Inr acl)])
                @ [Called Crypto_randomUUID [] (Inr jwtid),
                   Called Jwt_sign
                     [JObj [(''email'', get_member (get_member decoded ''user'') ''email''),
                            (''role'', role)],
                      JObj [(''algorithm'', JStr ''RS256''), (''expiresIn'', JStr expiry),
                            (''issuer'', JStr (auth_jwt_issuer cfg)), (''jwtid'', jwtid)]]
                     (Inr tok)]))"
proof (intro conjI allI impI)
  assume "\<not> isFromFollowUpBoss env (embed_context p) (embed_signature p) (boss_system_key cfg)"
  then show "embedLogin cfg env p s = (Inl (ApiError (JStr ''Invalid signature'') (Some 401)), s)"
    by (rule embedLogin_invalid)
next
  fix r s'
  assume run: "embedLogin cfg env p s = (Inr r, s')"
  from embedLogin_InrD [OF run]
  show "isFromFollowUpBoss env (embed_context p) (embed_signature p) (boss_system_key cfg)"
    by simp
  from embedLogin_InrD [OF run] obtain decoded tok where
    d: "JSON_parse_base64 env (embed_context p) = Inr decoded" and
    g: "generateToken cfg env
          [(''email'', get_member (get_member decoded ''user'') ''email''),
           (''role'', JStr (UserRole_Agent cfg))] None s = (Inr tok, s')" and
    r: "r = JObj [(''jwt'', tok),
                  (''clientSignature'',
                   JStr (calcSignature env
                           (js_String (get_member (get_member decoded ''person'') ''id''))
                           (auth_agents_signature_salt cfg)))]"
    by blast
  let ?e = "get_member (get_member decoded ''user'') ''email''"
  let ?p = "[(''email'', ?e), (''role'', JStr (UserRole_Agent cfg))]"
  from generateToken_InrD [OF g] obtain pre signed dflt jwtid where
    c: "if app_disable_persistence cfg
        then pre = [] \<and> signed = ?p \<and> dflt = auth_jwt_expire cfg
        else \<exists>acl. pre = [Called AclRepo_getUserAcl [get_prop ?p ''email''] (Inr acl)]
               \<and> signed = set_prop ?p ''role'' (effective_role cfg acl ?p)
               \<and> dflt = override_expire (getRoleOverride cfg (effective_role cfg acl ?p))
                          (auth_jwt_expire cfg)" and
    t: "trace s' = trace s @ pre @
          [Called Crypto_randomUUID [] (Inr jwtid),
           Called Jwt_sign [JObj signed, signInOptions cfg (expires_or None dflt) jwtid]
             (Inr tok)]"
    by blast
  obtain acl where
    p: "pre = (if app_disable_persistence cfg then []
               else [Called AclRepo_getUserAcl [?e] (Inr acl)])"
       "signed = [(''email'', ?e),
                  (''role'',
                   if app_disable_persistence cfg then JStr (UserRole_Agent cfg)
                   else if truthy (opt_dot acl ''role'') then opt_dot acl ''role''
                   else if UserRole_Agent cfg \<noteq> [] then JStr (UserRole_Agent cfg)
                   else JStr (UserRole_User cfg))]"
  proof (cases "app_disable_persistence cfg")
    case True
    with c that [of JUndefined] show ?thesis by simp
  next
    case False
    with c obtain acl where
      "pre = [Called AclRepo_getUserAcl [get_prop ?p ''email''] (Inr acl)]"
      "signed = set_prop ?p ''role'' (effective_role cfg acl ?p)"
      by auto
    with False that [of acl] show ?thesis
      by (simp add: agent_payload_role agent_effective_role get_prop_def)
  qed
  show "\<exists>decoded tok acl jwtid role expiry.
              JSON_parse_base64 env (embed_context p) = Inr decoded
            \<and> r = JObj [(''jwt'', tok),
                         (''clientSignature'',
                          JStr (calcSignature env
                                  (js_String (get_member (get_member decoded ''person'') ''id''))
                                  (auth_agents_signature_salt cfg)))]
            \<and> role = (if app_disable_persistence cfg then JStr (UserRole_Agent cfg)
                      else if truthy (opt_dot acl ''role'') then opt_dot acl ''role''
                      else if UserRole_Agent cfg \<noteq> [] then JStr (UserRole_Agent cfg)
                      else JStr (UserRole_User cfg))
            \<and> trace s' =
                trace s
                @ (if app_disable_persistence cfg then []
                   else [Called AclRepo_getUserAcl
                           [get_member (get_member decoded ''user'') ''email''] (Inr acl)])
                @ [Called Crypto_randomUUID [] (Inr jwtid),
                   Called Jwt_sign
                     [JObj [(''email'', get_member (get_member decoded ''user'') ''email''),
                            (''role'', role)],
                      JObj [(''algorithm'', JStr ''RS256''), (''expiresIn'', JStr expiry),
                            (''issuer'', JStr (auth_jwt_issuer cfg)), (''jwtid'', jwtid)]]
                     (Inr tok)]"
    apply (rule_tac x = decoded in exI)
    apply (rule_tac x = tok in exI)
    apply (rule_tac x = acl in exI)
    apply (rule_tac x = jwtid in exI)
    apply (simp only: ex_simps simp_thms)
    apply (intro conjI)
      apply (rule d)
     apply (rule r)
    apply (rule_tac x = "expires_or None dflt" in exI)
    apply (simp only: t p signInOptions_def append_assoc)
    done
qed

theorem embedLogin_verifies_then_issues_witness:
  "\<not> isFromFollowUpBoss env0 (embed_context embed_junk) (embed_signature embed_junk)
        (boss_system_key cfg0)
   \<and> embedLogin cfg0 env0 embed_junk s0
       = (Inl (ApiError (JStr ''Invalid signature'') (Some 401)), s0)
   \<and> fst (embedLogin cfg0 env0 embed_agent s0)
       = Inr (JObj [(''jwt'', JStr ''jwt-2''), (''clientSignature'', JStr ''55:salt'')])
   \<and> sign_calls (trace (snd (embedLogin cfg0 env0 embed_agent s0)))
       = [(JObj [(''email'', JStr ''agent@x.com''), (''role'', JStr ''agent'')],
           JObj [(''algorithm'', JStr ''RS256''), (''expiresIn'', JStr ''7d''),
                 (''issuer'', JStr ''felix''), (''jwtid'', JStr ''uuid-1'')])]
   \<and> isFromFollowUpBoss env0 (embed_context embed_agent) (embed_signature embed_agent)
        (boss_system_key cfg0)
   \<and> (\<exists>decoded tok acl jwtid role expiry.
              JSON_parse_base64 env0 (embed_context embed_agent) = Inr decoded
            \<and> JObj [(''jwt'', JStr ''jwt-2''), (''clientSignature'', JStr ''55:salt'')]
                = JObj [(''jwt'', tok),
                         (''clientSignature'',
                          JStr (calcSignature env0
                                  (js_String (get_member (get_member decoded ''person'') ''id''))
                                  (auth_agents_signature_salt cfg0)))]
            \<and> role = (if app_disable_persistence cfg0 then JStr (UserRole_Agent cfg0)
                      else if truthy (opt_dot acl ''role'') then opt_dot acl ''role''
                      else if UserRole_Agent cfg0 \<noteq> [] then JStr (UserRole_Agent cfg0)
                      else JStr (UserRole_User cfg0))
            \<and> trace (snd (embedLogin cfg0 env0 embed_agent s0)) =
                trace s0
                @ (if app_disable_persistence cfg0 then []
                   else [Called AclRepo_getUserAcl
                           [get_member (get_member decoded ''user'') ''email''] (Inr acl)])
                @ [Called Crypto_randomUUID [] (Inr jwtid),
                   Called Jwt_sign
                     [JObj [(''email'', get_member (get_member decoded ''user'') ''email''),
                            (''role'', role)],
                      JObj [(''algorithm'', JStr ''RS256''), (''expiresIn'', JStr expiry),
                            (''issuer'', JStr (auth_jwt_issuer cfg0)), (''jwtid'', jwtid)]]
                     (Inr tok)])"
proof -
  have bad: "\<not> isFromFollowUpBoss env0 (embed_context embed_junk) (embed_signature embed_junk)
        (boss_system_key cfg0)"
    by code_simp
  have f: "fst (embedLogin cfg0 env0 embed_agent s0)
       = Inr (JObj [(''jwt'', JStr ''jwt-2''), (''clientSignature'', JStr ''55:salt'')])"
    by code_simp
  have g: "sign_calls (trace (snd (embedLogin cfg0 env0 embed_agent s0)))
       = [(JObj [(''email'', JStr ''agent@x.com''), (''role'', JStr ''agent'')],
           JObj [(''algorithm'', JStr ''RS256''), (''expiresIn'', JStr ''7d''),
                 (''issuer'', JStr ''felix''), (''jwtid'', JStr ''uuid-1'')])]"
    by code_simp
  have h: "embedLogin cfg0 env0 embed_agent s0
       = (Inr (JObj [(''jwt'', JStr ''jwt-2''), (''clientSignature'', JStr ''55:salt'')]),
          snd (embedLogin cfg0 env0 embed_agent s0))"
    using f by (simp add: prod_eq_iff)
  from embedLogin_verifies_then_issues [of env0 embed_junk cfg0 s0] bad
  have a: "embedLogin cfg0 env0 embed_junk s0
       = (Inl (ApiError (JStr ''Invalid signature'') (Some 401)), s0)"
    by blast
  from embedLogin_verifies_then_issues [of env0 embed_agent cfg0 s0] h bad a f g
  show ?thesis
    by blast
qed

text \<open>
  The claim as stated fails for an embedded identity the access-control table names:
  the signature of \<open>boss@x.com\<close>'s context is valid, the role requested is \<open>agent\<close>, and the
  token is signed with the role \<open>admin\<close> of the entry (and the default expiry, not the
  agents' one).
\<close>

theorem embedLogin_verifies_then_issues_counterexample:
  "isFromFollowUpBoss env0 (embed_context embed_boss) (embed_signature embed_boss)
     (boss_system_key cfg0)
   \<and> UserRole_Agent cfg0 = ''agent''
   \<and> fst (embedLogin cfg0 env0 embed_boss s0)
       = Inr (JObj [(''jwt'', JStr ''jwt-2''), (''clientSignature'', JStr ''56:salt'')])
   \<and> sign_calls (trace (snd (embedLogin cfg0 env0 embed_boss s0)))
       = [(JObj [(''email'', JStr ''boss@x.com''), (''role'', JStr ''admin'')],
           JObj [(''algorithm'', JStr ''RS256''), (''expiresIn'', JStr ''1d''),
                 (''issuer'', JStr ''felix''), (''jwtid'', JStr ''uuid-1'')])]"
  by code_simp

section \<open>Sign-in by a message token\<close>

lemma useRepliersToken_disabled:
  "\<not> auth_emailtoken_enabled cfg \<Longrightarrow>
     useRepliersToken cfg env p s =
       (Inl (ApiError (JStr ''Endpoint is not activated'') (Some 400)),
        s\<lparr>trace := trace s @
             [Logged (JObj [(''data'', JObj [(''params'', JObj [(''token'', JStr (token p))])])])
                ''400 - [AuthService: useRepliersToken]: Endpoint is not activated'']\<rparr>)"
  by (simp add: useRepliersToken_def Let_def)

lemma useRepliersToken_none:
  assumes "auth_emailtoken_enabled cfg"
    and "respond env (world s) Messages_get [JObj [(''token'', JStr (token p))]] = (Inr res, w1)"
    and "\<not> nullish res" and "get_member res ''messages'' = JArr msgs"
    and "msgs = [] \<or> hd msgs = JUndefined"
  shows "useRepliersToken cfg env p s =
       (Inl (ApiError (JStr ''Email token is invalid'') (Some 403)),
        s\<lparr>world := w1,
          trace := trace s @
             [Called Messages_get [JObj [(''token'', JStr (token p))]] (Inr res),
              Logged (JObj [(''data'', JObj [(''params'', JObj [(''token'', JStr (token p))])])])
                ''404 - [AuthService: useRepliersToken]: Email token is invalid'']\<rparr>)"
  using assms
  by (cases msgs) (auto simp: useRepliersToken_def Let_def bindE_call dot_def nullish_def)

lemma useRepliersToken_expired_plain:
  assumes "auth_emailtoken_enabled cfg"
    and "respond env (world s) Messages_get [JObj [(''token'', JStr (token p))]] = (Inr res, w1)"
    and "\<not> nullish res" and "get_member res ''messages'' = JArr (message # rest)"
    and "\<not> nullish message" and "\<not> nullish (get_member message ''delivery'')"
    and "elapsed_exceeds (now s)
           (Date_getTime env (get_member (get_member message ''delivery'') ''sentDateTime''))
           (ms env (auth_emailtoken_expire cfg))"
    and "\<not> auth_emailtoken_auto_otp cfg"
  shows "useRepliersToken cfg env p s =
       (Inl (ApiError (JStr ''Email token has expired'') (Some 403)),
        s\<lparr>world := w1,
          trace := trace s @
             [Called Messages_get [JObj [(''token'', JStr (token p))]] (Inr res),
              Logged (JObj [(''data'', JObj [(''params'', JObj [(''token'', JStr (token p))])])])
                ''403 - [AuthService: useRepliersToken]: Email token has expired'']\<rparr>)"
  using assms
  by (auto simp: useRepliersToken_def Let_def bindE_call dot_def nullish_def)

lemma useRepliersToken_expired_cooldown:
  assumes "auth_emailtoken_enabled cfg"
    and "respond env (world s) Messages_get [JObj [(''token'', JStr (token p))]] = (Inr res, w1)"
    and "\<not> nullish res" and "get_member res ''messages'' = JArr (message # rest)"
    and "\<not> nullish message" and "\<not> nullish (get_member message ''delivery'')"
    and "elapsed_exceeds (now s)
           (Date_getTime env (get_member (get_member message ''delivery'') ''sentDateTime''))
           (ms env (auth_emailtoken_expire cfg))"
    and "auth_emailtoken_auto_otp cfg"
    and "truthy (keyv_lookup s (otpSentKey (get_member message ''clientId'')))"
  shows "useRepliersToken cfg env p s =
       (Inl (ApiError (JStr otp_wait) (Some 403)),
        s\<lparr>world := w1,
          trace := trace s @
             [Called Messages_get [JObj [(''token'', JStr (token p))]] (Inr res),
              Logged (JObj [(''data'', JObj [(''clientId'', get_member message ''clientId'')])])
                (''403 - [AuthService: otpSendRateOpened]: '' @ otp_wait)]\<rparr>)"
proof -
  let ?s1 = "s\<lparr>world := w1,
               trace := trace s @
                 [Called Messages_get [JObj [(''token'', JStr (token p))]] (Inr res)]\<rparr>"
  have "truthy (keyv_lookup ?s1 (otpSentKey (get_member message ''clientId'')))"
    using assms(9) by simp
  note c = bindE_Inl
    [where m = "sendOtp cfg env (get_member message ''clientId'') (get_member message ''agentId'')",
     OF sendOtp_closed [OF this]]
  from assms show ?thesis
    by (auto simp: useRepliersToken_def Let_def bindE_call dot_def nullish_def c)
qed

lemma useRepliersToken_expired_resend:
  assumes "auth_emailtoken_enabled cfg"
    and "respond env (world s) Messages_get [JObj [(''token'', JStr (token p))]] = (Inr res, w1)"
    and "\<not> nullish res" and "get_member res ''messages'' = JArr (message # rest)"
    and "\<not> nullish message" and "\<not> nullish (get_member message ''delivery'')"
    and "elapsed_exceeds (now s)
           (Date_getTime env (get_member (get_member message ''delivery'') ''sentDateTime''))
           (ms env (auth_emailtoken_expire cfg))"
    and "auth_emailtoken_auto_otp cfg"
    and "\<not> truthy (keyv_lookup s (otpSentKey (get_member message ''clientId'')))"
    and "respond env w1 Codegen_generate [] = (Inr otp, w2)"
    and "respond env w2 Messages_send
           [JObj [(''agentId'', if get_member message ''agentId'' = JUndefined
                               then repliers_clients_defaultAgentId cfg
                               else get_member message ''agentId''),
                  (''clientId'', get_member message ''clientId''), (''sender'', JStr ''agent''),
                  (''content'', formatOtpMessageContent cfg otp)]] = (Inr sent, w3)"
  shows "useRepliersToken cfg env p s =
       (Inl (ApiError
               (JStr ''Email token has expired. Please check your email/text for a new authentication link'')
               (Some 412)),
        s\<lparr>world := w3,
          db := (db s)
            (js_String otp \<mapsto>
               (JObj [(''clientId'', get_member message ''clientId'')],
                if auth_otp_ttl_ms cfg = 0 then None else Some (now s + auth_otp_ttl_ms cfg)),
             otpSentKey (get_member message ''clientId'') \<mapsto>
               (JNum (now s),
                if auth_otp_resend_ttl_ms cfg = 0 then None
                else Some (now s + auth_otp_resend_ttl_ms cfg))),
          trace := trace s @
             [Called Messages_get [JObj [(''token'', JStr (token p))]] (Inr res),
              Called Codegen_generate [] (Inr otp),
              Called Messages_send
                [JObj [(''agentId'', if get_member message ''agentId'' = JUndefined
                                    then repliers_clients_defaultAgentId cfg
                                    else get_member message ''agentId''),
                       (''clientId'', get_member message ''clientId''),
                       (''sender'', JStr ''agent''),
                       (''content'', formatOtpMessageContent cfg otp)]]
                (Inr sent),
              Logged (JObj [(''data'', JObj [(''params'', JObj [(''token'', JStr (token p))])])])
                ''412 - [AuthService: useRepliersToken]: Email token has expired. Please check your email/text for a new authentication link'']\<rparr>)"
proof -
  let ?s1 = "s\<lparr>world := w1,
               trace := trace s @
                 [Called Messages_get [JObj [(''token'', JStr (token p))]] (Inr res)]\<rparr>"
  have a: "\<not> truthy (keyv_lookup ?s1 (otpSentKey (get_member message ''clientId'')))"
    using assms(9) by simp
  have b: "respond env (world ?s1) Codegen_generate [] = (Inr otp, w2)"
    using assms(10) by simp
  note c = bindE_Inr
    [where m = "sendOtp cfg env (get_member message ''clientId'') (get_member message ''agentId'')",
     OF sendOtp_open [OF a b assms(11)]]
  from assms(1-8) show ?thesis
    by (auto simp: useRepliersToken_def Let_def bindE_call dot_def nullish_def c)
qed

lemma useRepliersToken_fresh:
  assumes "auth_emailtoken_enabled cfg"
    and "respond env (world s) Messages_get [JObj [(''token'', JStr (token p))]] = (Inr res, w1)"
    and "\<not> nullish res" and "get_member res ''messages'' = JArr (message # rest)"
    and "\<not> nullish message" and "\<not> nullish (get_member message ''delivery'')"
    and "\<not> elapsed_exceeds (now s)
           (Date_getTime env (get_member (get_member message ''delivery'') ''sentDateTime''))
           (ms env (auth_emailtoken_expire cfg))"
    and "respond env w1 Clients_get [get_member message ''clientId''] = (Inr userInfo, w2)"
    and "\<not> nullish userInfo" and "\<not> nullish (get_member userInfo ''clientId'')"
    and "generateToken cfg env
           [(''email'', get_member userInfo ''email''),
            (''sub'', JStr (js_String (get_member userInfo ''clientId'')))] None
           (s\<lparr>world := w2,
              trace := trace s @
                [Called Messages_get [JObj [(''token'', JStr (token p))]] (Inr res),
                 Called Clients_get [get_member message ''clientId''] (Inr userInfo)]\<rparr>)
         = (Inr tok, s')"
  shows "useRepliersToken cfg env p s =
       (Inr (JObj [(''token'', tok), (''profile'', JObj (pick userInfo userProfilKeys))]), s')"
  using assms
  by (auto simp: useRepliersToken_def Let_def bindE_call dot_def toString_def nullish_def bindE_Inr)

text \<open>
  C5, as amended. \<open>useRepliersToken\<close> on a disabled endpoint raises the 400 error before
  it asks for any message. On an enabled one it asks the messaging provider for the
  message of the token, and: with no message it raises the 403 error; with a message
  older than the window and auto-resend off it raises the plain 403 expiry and sends
  nothing; with auto-resend on it calls \<open>sendOtp\<close> for the message's client and agent,
  which, while that client's resend mark is live, raises the 403 rate-limit error with
  nothing sent, and otherwise stores and sends exactly one new code, after which the 412
  error is raised; with a message inside the window it fetches the client, issues a
  token and returns token and profile, as \<open>useOtp\<close> does, the store untouched.
\<close>

theorem useRepliersToken_outcomes:
  "(\<not> auth_emailtoken_enabled cfg \<longrightarrow>
      useRepliersToken cfg env p s =
        (Inl (ApiError (JStr ''Endpoint is not activated'') (Some 400)),
         s\<lparr>trace := trace s @
              [Logged (JObj [(''data'', JObj [(''params'', JObj [(''token'', JStr (token p))])])])
                 ''400 - [AuthService: useRepliersToken]: Endpoint is not activated'']\<rparr>))
   \<and> (\<forall>res w1 msgs.
        auth_emailtoken_enabled cfg
        \<and> respond env (world s) Messages_get [JObj [(''token'', JStr (token p))]] = (Inr res, w1)
        \<and> \<not> nullish res \<and> get_member res ''messages'' = JArr msgs
        \<longrightarrow>
        (msgs = [] \<or> hd msgs = JUndefined \<longrightarrow>
           useRepliersToken cfg env p s =
             (Inl (ApiError (JStr ''Email token is invalid'') (Some 403)),
              s\<lparr>world := w1,
                trace := trace s @
                  [Called Messages_get [JObj [(''token'', JStr (token p))]] (Inr res),
                   Logged
                     (JObj [(''data'', JObj [(''params'', JObj [(''token'', JStr (token p))])])])
                     ''404 - [AuthService: useRepliersToken]: Email token is invalid'']\<rparr>))
        \<and> (\<forall>message rest.
             msgs = message # rest \<and> \<not> nullish message
             \<and> \<not> nullish (get_member message ''delivery'')
             \<longrightarrow>
             (elapsed_exceeds (now s)
                (Date_getTime env (get_member (get_member message ''delivery'') ''sentDateTime''))
                (ms env (auth_emailtoken_expire cfg))
              \<longrightarrow>
                (\<not> auth_emailtoken_auto_otp cfg \<longrightarrow>
                   useRepliersToken cfg env p s =
                     (Inl (ApiError (JStr ''Email token has expired'') (Some 403)),
                      s\<lparr>world := w1,
                        trace := trace s @
                          [Called Messages_get [JObj [(''token'', JStr (token p))]] (Inr res),
                           Logged
                             (JObj [(''data'',
                                     JObj [(''params'', JObj [(''token'', JStr (token p))])])])
                             ''403 - [AuthService: useRepliersToken]: Email token has expired'']\<rparr>))
                \<and> (auth_emailtoken_auto_otp cfg
                    \<and> truthy (keyv_lookup s (otpSentKey (get_member message ''clientId'')))
                    \<longrightarrow>
                    useRepliersToken cfg env p s =
                      (Inl (ApiError (JStr otp_wait) (Some 403)),
                       s\<lparr>world := w1,
                         trace := trace s @
                           [Called Messages_get [JObj [(''token'', JStr (token p))]] (Inr res),
                            Logged
                              (JObj [(''data'',
                                      JObj [(''clientId'', get_member message ''clientId'')])])
                              (''403 - [AuthService: otpSendRateOpened]: '' @ otp_wait)]\<rparr>))
                \<and> (\<forall>otp w2 sent w3.
                     auth_emailtoken_auto_otp cfg
                     \<and> \<not> truthy (keyv_lookup s (otpSentKey (get_member message ''clientId'')))
                     \<and> respond env w1 Codegen_generate [] = (Inr otp, w2)
                     \<and> respond env w2 Messages_send
                          [JObj [(''agentId'', if get_member message ''agentId'' = JUndefined
                                              then repliers_clients_defaultAgentId cfg
                                              else get_member message ''agentId''),
                                 (''clientId'', get_member message ''clientId''),
                                 (''sender'', JStr ''agent''),
                                 (''content'', formatOtpMessageContent cfg otp)]] = (Inr sent, w3)
                     \<longrightarrow>
                     useRepliersToken cfg env p s =
                       (Inl (ApiError
                               (JStr ''Email token has expired. Please check your email/text for a new authentication link'')
                               (Some 412)),
                        s\<lparr>world := w3,
                          db := (db s)
                            (js_String otp \<mapsto>
                               (JObj [(''clientId'', get_member message ''clientId'')],
                                if auth_otp_ttl_ms cfg = 0 then None
                                else Some (now s + auth_otp_ttl_ms cfg)),
                             otpSentKey (get_member message ''clientId'') \<mapsto>
                               (JNum (now s),
                                if auth_otp_resend_ttl_ms cfg = 0 then None
                                else Some (now s + auth_otp_resend_ttl_ms cfg))),
                          trace := trace s @
                            [Called Messages_get [JObj [(''token'', JStr (token p))]] (Inr res),
                             Called Codegen_generate [] (Inr otp),
                             Called Messages_send
                               [JObj [(''agentId'', if get_member message ''agentId'' = JUndefined
                                                   then repliers_clients_defaultAgentId cfg
                                                   else get_member message ''agentId''),
                                      (''clientId'', get_member message ''clientId''),
                                      (''sender'', JStr ''agent''),
                                      (''content'', formatOtpMessageContent cfg otp)]]
                               (Inr sent),
                             Logged
                               (JObj [(''data'',
                                       JObj [(''params'', JObj [(''token'', JStr (token p))])])])
                               ''412 - [AuthService: useRepliersToken]: Email token has expired. Please check your email/text for a new authentication link'']\<rparr>)))
             \<and> (\<forall>userInfo w2 tok s'.
                  \<not> elapsed_exceeds (now s)
                      (Date_getTime env
                         (get_member (get_member message ''delivery'') ''sentDateTime''))
                      (ms env (auth_emailtoken_expire cfg))
                  \<and> respond env w1 Clients_get [get_member message ''clientId'']
                      = (Inr userInfo, w2)
                  \<and> \<not> nullish userInfo \<and> \<not> nullish (get_member userInfo ''clientId'')
                  \<and> generateToken cfg env
                       [(''email'', get_member userInfo ''email''),
                        (''sub'', JStr (js_String (get_member userInfo ''clientId'')))] None
                       (s\<lparr>world := w2,
                          trace := trace s @
                            [Called Messages_get [JObj [(''token'', JStr (token p))]] (Inr res),
                             Called Clients_get [get_member message ''clientId'']
                               (Inr userInfo)]\<rparr>)
                     = (Inr tok, s')
                  \<longrightarrow>
                  useRepliersToken cfg env p s =
                    (Inr (JObj [(''token'', tok),
                                (''profile'', JObj (pick userInfo userProfilKeys))]), s'))))"
  apply (intro conjI allI impI)
       apply (erule useRepliersToken_disabled)
      apply (elim conjE, erule (4) useRepliersToken_none)
     apply (elim conjE, hypsubst, erule (7) useRepliersToken_expired_plain)
    apply (elim conjE, hypsubst, erule (8) useRepliersToken_expired_cooldown)
   apply (elim conjE, hypsubst, erule (10) useRepliersToken_expired_resend)
  apply (elim conjE, hypsubst, erule (10) useRepliersToken_fresh)
  done

theorem useRepliersToken_outcomes_witness:
  "\<not> auth_emailtoken_enabled cfg_emailtoken_off
   \<and> useRepliersToken cfg_emailtoken_off env0 token_old s0 =
        (Inl (ApiError (JStr ''Endpoint is not activated'') (Some 400)),
         s0\<lparr>trace := trace s0 @
              [Logged (JObj [(''data'', JObj [(''params'', JObj [(''token'', JStr (token token_old))])])])
                 ''400 - [AuthService: useRepliersToken]: Endpoint is not activated'']\<rparr>)
   \<and> useRepliersToken cfg0 env0 token_none s0 =
        (Inl (ApiError (JStr ''Email token is invalid'') (Some 403)),
         s0\<lparr>world := 1,
            trace := trace s0 @
              [Called Messages_get [JObj [(''token'', JStr (token token_none))]]
                 (Inr (JObj [(''messages'', JArr [])])),
               Logged
                 (JObj [(''data'', JObj [(''params'', JObj [(''token'', JStr (token token_none))])])])
                 ''404 - [AuthService: useRepliersToken]: Email token is invalid'']\<rparr>)
   \<and> elapsed_exceeds (now s0)
        (Date_getTime env0
           (get_member (get_member (message_sent (JStr ''old'')) ''delivery'') ''sentDateTime''))
        (ms env0 (auth_emailtoken_expire cfg0))
   \<and> useRepliersToken cfg_no_resend env0 token_old s0 =
        (Inl (ApiError (JStr ''Email token has expired'') (Some 403)),
         s0\<lparr>world := 1,
            trace := trace s0 @
              [Called Messages_get [JObj [(''token'', JStr (token token_old))]]
                 (Inr (JObj [(''messages'', JArr [message_sent (JStr ''old'')])])),
               Logged
                 (JObj [(''data'', JObj [(''params'', JObj [(''token'', JStr (token token_old))])])])
                 ''403 - [AuthService: useRepliersToken]: Email token has expired'']\<rparr>)
   \<and> truthy (keyv_lookup s_cooldown
                (otpSentKey (get_member (message_sent (JStr ''old'')) ''clientId'')))
   \<and> useRepliersToken cfg0 env0 token_old s_cooldown =
        (Inl (ApiError (JStr otp_wait) (Some 403)),
         s_cooldown\<lparr>world := 1,
            trace := trace s_cooldown @
              [Called Messages_get [JObj [(''token'', JStr (token token_old))]]
                 (Inr (JObj [(''messages'', JArr [message_sent (JStr ''old'')])])),
               Logged
                 (JObj [(''data'',
                         JObj [(''clientId'',
                                get_member (message_sent (JStr ''old'')) ''clientId'')])])
                 (''403 - [AuthService: otpSendRateOpened]: '' @ otp_wait)]\<rparr>)
   \<and> fst (useRepliersToken cfg0 env0 token_old s0) =
        Inl (ApiError
               (JStr ''Email token has expired. Please check your email/text for a new authentication link'')
               (Some 412))
   \<and> callees (trace (snd (useRepliersToken cfg0 env0 token_old s0)))
        = [Messages_get, Codegen_generate, Messages_send]
   \<and> fst (useRepliersToken cfg0 env0 token_fresh s0) =
        Inr (JObj [(''token'', JStr ''jwt-4''),
                   (''profile'', JObj (pick client7 userProfilKeys))])"
proof -
  note inst = useRepliersToken_outcomes [of _ env0]
  have off: "\<not> auth_emailtoken_enabled cfg_emailtoken_off"
    by code_simp
  have on: "auth_emailtoken_enabled cfg0" "auth_emailtoken_enabled cfg_no_resend"
    "auth_emailtoken_auto_otp cfg0" "\<not> auth_emailtoken_auto_otp cfg_no_resend"
    by code_simp+
  have get_none:
    "respond env0 (world s0) Messages_get [JObj [(''token'', JStr (token token_none))]]
     = (Inr (JObj [(''messages'', JArr [])]), 1)"
    "\<not> nullish (JObj [(''messages'', JArr [])])"
    "get_member (JObj [(''messages'', JArr [])]) ''messages'' = JArr []"
    by code_simp+
  have get_old:
    "respond env0 (world s0) Messages_get [JObj [(''token'', JStr (token token_old))]]
     = (Inr (JObj [(''messages'', JArr [message_sent (JStr ''old'')])]), 1)"
    "respond env0 (world s_cooldown) Messages_get [JObj [(''token'', JStr (token token_old))]]
     = (Inr (JObj [(''messages'', JArr [message_sent (JStr ''old'')])]), 1)"
    "\<not> nullish (JObj [(''messages'', JArr [message_sent (JStr ''old'')])])"
    "get_member (JObj [(''messages'', JArr [message_sent (JStr ''old'')])]) ''messages''
     = JArr [message_sent (JStr ''old'')]"
    "\<not> nullish (message_sent (JStr ''old''))"
    "\<not> nullish (get_member (message_sent (JStr ''old'')) ''delivery'')"
    by code_simp+
  have old:
    "elapsed_exceeds (now s0)
        (Date_getTime env0
           (get_member (get_member (message_sent (JStr ''old'')) ''delivery'') ''sentDateTime''))
        (ms env0 (auth_emailtoken_expire cfg0))"
    "elapsed_exceeds (now s0)
        (Date_getTime env0
           (get_member (get_member (message_sent (JStr ''old'')) ''delivery'') ''sentDateTime''))
        (ms env0 (auth_emailtoken_expire cfg_no_resend))"
    "elapsed_exceeds (now s_cooldown)
        (Date_getTime env0
           (get_member (get_member (message_sent (JStr ''old'')) ''delivery'') ''sentDateTime''))
        (ms env0 (auth_emailtoken_expire cfg0))"
    by code_simp+
  have mark: "truthy (keyv_lookup s_cooldown
                (otpSentKey (get_member (message_sent (JStr ''old'')) ''clientId'')))"
    by code_simp
  from inst [of cfg_emailtoken_off token_old s0] off
  have w1: "useRepliersToken cfg_emailtoken_off env0 token_old s0 =
        (Inl (ApiError (JStr ''Endpoint is not activated'') (Some 400)),
         s0\<lparr>trace := trace s0 @
              [Logged (JObj [(''data'', JObj [(''params'', JObj [(''token'', JStr (token token_old))])])])
                 ''400 - [AuthService: useRepliersToken]: Endpoint is not activated'']\<rparr>)"
    by blast
  from inst [of cfg0 token_none s0] on get_none
  have w2: "useRepliersToken cfg0 env0 token_none s0 =
        (Inl (ApiError (JStr ''Email token is invalid'') (Some 403)),
         s0\<lparr>world := 1,
            trace := trace s0 @
              [Called Messages_get [JObj [(''token'', JStr (token token_none))]]
                 (Inr (JObj [(''messages'', JArr [])])),
               Logged
                 (JObj [(''data'', JObj [(''params'', JObj [(''token'', JStr (token token_none))])])])
                 ''404 - [AuthService: useRepliersToken]: Email token is invalid'']\<rparr>)"
    by blast
  from inst [of cfg_no_resend token_old s0] on get_old old
  have w3: "useRepliersToken cfg_no_resend env0 token_old s0 =
        (Inl (ApiError (JStr ''Email token has expired'') (Some 403)),
         s0\<lparr>world := 1,
            trace := trace s0 @
              [Called Messages_get [JObj [(''token'', JStr (token token_old))]]
                 (Inr (JObj [(''messages'', JArr [message_sent (JStr ''old'')])])),
               Logged
                 (JObj [(''data'', JObj [(''params'', JObj [(''token'', JStr (token token_old))])])])
                 ''403 - [AuthService: useRepliersToken]: Email token has expired'']\<rparr>)"
    by blast
  from inst [of cfg0 token_old s_cooldown] on get_old old mark
  have w4: "useRepliersToken cfg0 env0 token_old s_cooldown =
        (Inl (ApiError (JStr otp_wait) (Some 403)),
         s_cooldown\<lparr>world := 1,
            trace := trace s_cooldown @
              [Called Messages_get [JObj [(''token'', JStr (token token_old))]]
                 (Inr (JObj [(''messages'', JArr [message_sent (JStr ''old'')])])),
               Logged
                 (JObj [(''data'',
                         JObj [(''clientId'',
                                get_member (message_sent (JStr ''old'')) ''clientId'')])])
                 (''403 - [AuthService: otpSendRateOpened]: '' @ otp_wait)]\<rparr>)"
    by blast
  have free: "\<not> truthy (keyv_lookup s0
                (otpSentKey (get_member (message_sent (JStr ''old'')) ''clientId'')))"
    by code_simp
  have resend:
    "respond env0 1 Codegen_generate [] = (Inr (JStr ''424242''), 2)"
    "respond env0 2 Messages_send
       [JObj [(''agentId'', if get_member (message_sent (JStr ''old'')) ''agentId'' = JUndefined
                           then repliers_clients_defaultAgentId cfg0
                           else get_member (message_sent (JStr ''old'')) ''agentId''),
              (''clientId'', get_member (message_sent (JStr ''old'')) ''clientId''),
              (''sender'', JStr ''agent''),
              (''content'', formatOtpMessageContent cfg0 (JStr ''424242''))]]
     = (Inr (JObj [(''messageId'', JNum 2)]), 3)"
    by code_simp+
  from inst [of cfg0 token_old s0] on get_old old free resend
  have "useRepliersToken cfg0 env0 token_old s0 =
        (Inl (ApiError
               (JStr ''Email token has expired. Please check your email/text for a new authentication link'')
               (Some 412)),
         s0\<lparr>world := 3,
            db := (db s0)
              (js_String (JStr ''424242'') \<mapsto>
                 (JObj [(''clientId'', get_member (message_sent (JStr ''old'')) ''clientId'')],
                  if auth_otp_ttl_ms cfg0 = 0 then None
                  else Some (now s0 + auth_otp_ttl_ms cfg0)),
               otpSentKey (get_member (message_sent (JStr ''old'')) ''clientId'') \<mapsto>
                 (JNum (now s0),
                  if auth_otp_resend_ttl_ms cfg0 = 0 then None
                  else Some (now s0 + auth_otp_resend_ttl_ms cfg0))),
            trace := trace s0 @
              [Called Messages_get [JObj [(''token'', JStr (token token_old))]]
                 (Inr (JObj [(''messages'', JArr [message_sent (JStr ''old'')])])),
               Called Codegen_generate [] (Inr (JStr ''424242'')),
               Called Messages_send
                 [JObj [(''agentId'',
                         if get_member (message_sent (JStr ''old'')) ''agentId'' = JUndefined
                         then repliers_clients_defaultAgentId cfg0
                         else get_member (message_sent (JStr ''old'')) ''agentId''),
                        (''clientId'', get_member (message_sent (JStr ''old'')) ''clientId''),
                        (''sender'', JStr ''agent''),
                        (''content'', formatOtpMessageContent cfg0 (JStr ''424242''))]]
                 (Inr (JObj [(''messageId'', JNum 2)])),
               Logged
                 (JObj [(''data'', JObj [(''params'', JObj [(''token'', JStr (token token_old))])])])
                 ''412 - [AuthService: useRepliersToken]: Email token has expired. Please check your email/text for a new authentication link'']\<rparr>)"
    by blast
  then have w5: "fst (useRepliersToken cfg0 env0 token_old s0) =
        Inl (ApiError
               (JStr ''Email token has expired. Please check your email/text for a new authentication link'')
               (Some 412))"
    by (simp only: fst_conv)
  have w5': "callees (trace (snd (useRepliersToken cfg0 env0 token_old s0)))
        = [Messages_get, Codegen_generate, Messages_send]"
    by code_simp
  have get_fresh:
    "respond env0 (world s0) Messages_get [JObj [(''token'', JStr (token token_fresh))]]
     = (Inr (JObj [(''messages'', JArr [message_sent (JStr ''fresh'')])]), 1)"
    "\<not> nullish (JObj [(''messages'', JArr [message_sent (JStr ''fresh'')])])"
    "get_member (JObj [(''messages'', JArr [message_sent (JStr ''fresh'')])]) ''messages''
     = JArr [message_sent (JStr ''fresh'')]"
    "\<not> nullish (message_sent (JStr ''fresh''))"
    "\<not> nullish (get_member (message_sent (JStr ''fresh'')) ''delivery'')"
    "\<not> elapsed_exceeds (now s0)
        (Date_getTime env0
           (get_member (get_member (message_sent (JStr ''fresh'')) ''delivery'') ''sentDateTime''))
        (ms env0 (auth_emailtoken_expire cfg0))"
    "respond env0 1 Clients_get [get_member (message_sent (JStr ''fresh'')) ''clientId'']
     = (Inr client7, 2)"
    "\<not> nullish client7" "\<not> nullish (get_member client7 ''clientId'')"
    by code_simp+
  let ?t = "s0\<lparr>world := 2,
              trace := trace s0 @
                [Called Messages_get [JObj [(''token'', JStr (token token_fresh))]]
                   (Inr (JObj [(''messages'', JArr [message_sent (JStr ''fresh'')])])),
                 Called Clients_get [get_member (message_sent (JStr ''fresh'')) ''clientId'']
                   (Inr client7)]\<rparr>"
  have "fst (generateToken cfg0 env0
               [(''email'', get_member client7 ''email''),
                (''sub'', JStr (js_String (get_member client7 ''clientId'')))] None ?t)
        = Inr (JStr ''jwt-4'')"
    by code_simp
  then have issued:
    "generateToken cfg0 env0
       [(''email'', get_member client7 ''email''),
        (''sub'', JStr (js_String (get_member client7 ''clientId'')))] None ?t
     = (Inr (JStr ''jwt-4''),
        snd (generateToken cfg0 env0
               [(''email'', get_member client7 ''email''),
                (''sub'', JStr (js_String (get_member client7 ''clientId'')))] None ?t))"
    by (simp add: prod_eq_iff)
  note fresh = inst
    [of cfg0 token_fresh s0, THEN conjunct2, THEN spec, THEN spec, THEN spec, THEN mp,
     THEN conjunct2, THEN spec, THEN spec, THEN mp,
     THEN conjunct2, THEN spec, THEN spec, THEN spec, THEN spec, THEN mp]
  have h1: "auth_emailtoken_enabled cfg0
        \<and> respond env0 (world s0) Messages_get [JObj [(''token'', JStr (token token_fresh))]]
            = (Inr (JObj [(''messages'', JArr [message_sent (JStr ''fresh'')])]), 1)
        \<and> \<not> nullish (JObj [(''messages'', JArr [message_sent (JStr ''fresh'')])])
        \<and> get_member (JObj [(''messages'', JArr [message_sent (JStr ''fresh'')])]) ''messages''
            = JArr [message_sent (JStr ''fresh'')]"
    using on get_fresh by (intro conjI)
  have h2: "[message_sent (JStr ''fresh'')] = message_sent (JStr ''fresh'') # []
        \<and> \<not> nullish (message_sent (JStr ''fresh''))
        \<and> \<not> nullish (get_member (message_sent (JStr ''fresh'')) ''delivery'')"
    using get_fresh by (intro conjI) simp_all
  have h3: "\<not> elapsed_exceeds (now s0)
        (Date_getTime env0
           (get_member (get_member (message_sent (JStr ''fresh'')) ''delivery'') ''sentDateTime''))
        (ms env0 (auth_emailtoken_expire cfg0))
      \<and> respond env0 1 Clients_get [get_member (message_sent (JStr ''fresh'')) ''clientId'']
          = (Inr client7, 2)
      \<and> \<not> nullish client7 \<and> \<not> nullish (get_member client7 ''clientId'')
      \<and> generateToken cfg0 env0
           [(''email'', get_member client7 ''email''),
            (''sub'', JStr (js_String (get_member client7 ''clientId'')))] None ?t
         = (Inr (JStr ''jwt-4''),
            snd (generateToken cfg0 env0
                   [(''email'', get_member client7 ''email''),
                    (''sub'', JStr (js_String (get_member client7 ''clientId'')))] None ?t))"
    using get_fresh issued by (intro conjI)
  have "useRepliersToken cfg0 env0 token_fresh s0 =
        (Inr (JObj [(''token'', JStr ''jwt-4''),
                    (''profile'', JObj (pick client7 userProfilKeys))]),
         snd (generateToken cfg0 env0
               [(''email'', get_member client7 ''email''),
                (''sub'', JStr (js_String (get_member client7 ''clientId'')))] None ?t))"
    by (rule fresh [OF h1 h2 h3])
  then have w6: "fst (useRepliersToken cfg0 env0 token_fresh s0) =
        Inr (JObj [(''token'', JStr ''jwt-4''),
                   (''profile'', JObj (pick client7 userProfilKeys))])"
    by (simp only: fst_conv)
  from off w1 w2 old(1) w3 mark w4 w5 w5' w6 show ?thesis
    by blast
qed

text \<open>
  The claim as stated fails twice. A message found, older than the window, with
  auto-resend enabled, for a client whose resend mark is live: the error is the 403
  rate-limit one, not 412, and no code is sent. And on a disabled endpoint a token that
  no message carries gets the 400 error, not 403, the messaging provider never asked.
\<close>

theorem useRepliersToken_outcomes_counterexample:
  "auth_emailtoken_enabled cfg0 \<and> auth_emailtoken_auto_otp cfg0
   \<and> elapsed_exceeds (now s_cooldown) (Date_getTime env0 (JStr ''old''))
        (ms env0 (auth_emailtoken_expire cfg0))
   \<and> fst (useRepliersToken cfg0 env0 token_old s_cooldown)
       = Inl (ApiError (JStr otp_wait) (Some 403))
   \<and> callees (trace (snd (useRepliersToken cfg0 env0 token_old s_cooldown))) = [Messages_get]
   \<and> \<not> auth_emailtoken_enabled cfg_emailtoken_off
   \<and> fst (useRepliersToken cfg_emailtoken_off env0 token_none s0)
       = Inl (ApiError (JStr ''Endpoint is not activated'') (Some 400))
   \<and> callees (trace (snd (useRepliersToken cfg_emailtoken_off env0 token_none s0))) = []"
  by code_simp

section \<open>Sign-up\<close>

lemma signup_conflict_found:
  assumes reg: "StrapiService_register env (register_body params) s = (Inr strapiAuth, s1)"
    and "\<not> nullish strapiAuth" and "\<not> nullish (get_member strapiAuth ''user'')"
    and "respond env (world s1) Clients_create
           [create_body cfg params (get_member (get_member strapiAuth ''user'') ''id'')]
         = (Inl error, w2)"
    and "\<not> nullish error"
    and "get_member error ''status'' = JNum 409 \<or> get_member error ''statusCode'' = JNum 409"
    and "respond env w2 Clients_filter [JObj [(''email'', JStr (email params))]]
         = (Inr found, w3)"
    and "\<not> nullish found" and "get_member found ''clients'' = JArr (existingUser # rest)"
    and "truthy existingUser"
    and "respond env w3 Clients_update
           [update_body params existingUser (get_member (get_member strapiAuth ''user'') ''id'')]
         = (Inr updated, w4)"
    and "respond env w4 Clients_get [get_member existingUser ''clientId''] = (Inr userInfo, w5)"
    and "truthy userInfo"
  shows "signup cfg env params s =
           (Inr (JObj [(''token'', get_member strapiAuth ''jwt''),
                       (''user'',
                        JObj (pick (JObj (spread userInfo (get_member strapiAuth ''user'')))
                                userProfilKeys))]),
            s1\<lparr>world := w5,
               trace := trace s1 @
                 [Called Clients_create
                    [create_body cfg params (get_member (get_member strapiAuth ''user'') ''id'')]
                    (Inl error),
                  Called Clients_filter [JObj [(''email'', JStr (email params))]] (Inr found),
                  Called Clients_update
                    [update_body params existingUser
                       (get_member (get_member strapiAuth ''user'') ''id'')]
                    (Inr updated),
                  Called Clients_get [get_member existingUser ''clientId''] (Inr userInfo)]\<rparr>)"
proof -
  note c = bindE_catchE_Inl
    [where m = "call env Clients_create
                  [create_body cfg params (get_member (get_member strapiAuth ''user'') ''id'')]",
     OF call_respond [OF assms(4)]]
  from assms(2-) show ?thesis
    by (auto simp: signup_def
        bindE_Inr [where m = "StrapiService_register env (register_body params)", OF reg]
        c bindE_assoc bindE_call dot_def index_def nullish_def)
qed

lemma signup_conflict_lost:
  assumes reg: "StrapiService_register env (register_body params) s = (Inr strapiAuth, s1)"
    and "\<not> nullish strapiAuth" and "\<not> nullish (get_member strapiAuth ''user'')"
    and "respond env (world s1) Clients_create
           [create_body cfg params (get_member (get_member strapiAuth ''user'') ''id'')]
         = (Inl error, w2)"
    and "\<not> nullish error"
    and "get_member error ''status'' = JNum 409 \<or> get_member error ''statusCode'' = JNum 409"
    and "respond env w2 Clients_filter [JObj [(''email'', JStr (email params))]]
         = (Inr found, w3)"
    and "\<not> nullish found" and "get_member found ''clients'' = JArr existing"
    and "existing = [] \<or> \<not> truthy (hd existing)"
  shows "signup cfg env params s =
           (Inl (ApiError (JStr ''User conflict but not found'') (Some 500)),
            s1\<lparr>world := w3,
               trace := trace s1 @
                 [Called Clients_create
                    [create_body cfg params (get_member (get_member strapiAuth ''user'') ''id'')]
                    (Inl error),
                  Called Clients_filter [JObj [(''email'', JStr (email params))]]
                    (Inr found)]\<rparr>)"
proof -
  note c = bindE_catchE_Inl
    [where m = "call env Clients_create
                  [create_body cfg params (get_member (get_member strapiAuth ''user'') ''id'')]",
     OF call_respond [OF assms(4)]]
  from assms(2-) show ?thesis
    by (cases existing)
       (auto simp: signup_def
          bindE_Inr [where m = "StrapiService_register env (register_body params)", OF reg]
          c bindE_assoc bindE_call dot_def index_def nullish_def)
qed

text \<open>
  C4, as amended. When the identity provider has registered the user and the registry's
  create raises an error whose \<open>status\<close> or \<open>statusCode\<close> is 409, \<open>signup\<close> asks the
  registry for the records with the email. When there is a first record, and the
  update and the re-fetch answer, it updates that record with the new names and the
  provider's id, fetches it again and returns the provider's token with the profile
  merged from the fetched record and the provider's user: the 409 is not raised. When
  the lookup finds no record, \<open>signup\<close> raises the 500 error \<open>User conflict but not
  found\<close>, with no update and no re-fetch.
\<close>

theorem signup_conflict_fallback:
  "(\<forall>strapiAuth s1 error w2 found w3 existingUser rest updated w4 userInfo w5.
      StrapiService_register env (register_body params) s = (Inr strapiAuth, s1)
      \<and> \<not> nullish strapiAuth \<and> \<not> nullish (get_member strapiAuth ''user'')
      \<and> respond env (world s1) Clients_create
            [create_body cfg params (get_member (get_member strapiAuth ''user'') ''id'')]
          = (Inl error, w2)
      \<and> \<not> nullish error
      \<and> (get_member error ''status'' = JNum 409 \<or> get_member error ''statusCode'' = JNum 409)
      \<and> respond env w2 Clients_filter [JObj [(''email'', JStr (email params))]]
          = (Inr found, w3)
      \<and> \<not> nullish found \<and> get_member found ''clients'' = JArr (existingUser # rest)
      \<and> truthy existingUser
      \<and> respond env w3 Clients_update
            [update_body params existingUser
               (get_member (get_member strapiAuth ''user'') ''id'')]
          = (Inr updated, w4)
      \<and> respond env w4 Clients_get [get_member existingUser ''clientId''] = (Inr userInfo, w5)
      \<and> truthy userInfo
      \<longrightarrow>
      signup cfg env params s =
        (Inr (JObj [(''token'', get_member strapiAuth ''jwt''),
                    (''user'',
                     JObj (pick (JObj (spread userInfo (get_member strapiAuth ''user'')))
                             userProfilKeys))]),
         s1\<lparr>world := w5,
            trace := trace s1 @
              [Called Clients_create
                 [create_body cfg params (get_member (get_member strapiAuth ''user'') ''id'')]
                 (Inl error),
               Called Clients_filter [JObj [(''email'', JStr (email params))]] (Inr found),
               Called Clients_update
                 [update_body params existingUser
                    (get_member (get_member strapiAuth ''user'') ''id'')]
                 (Inr updated),
               Called Clients_get [get_member existingUser ''clientId''] (Inr userInfo)]\<rparr>))
   \<and> (\<forall>strapiAuth s1 error w2 found w3 existing.
      StrapiService_register env (register_body params) s = (Inr strapiAuth, s1)
      \<and> \<not> nullish strapiAuth \<and> \<not> nullish (get_member strapiAuth ''user'')
      \<and> respond env (world s1) Clients_create
            [create_body cfg params (get_member (get_member strapiAuth ''user'') ''id'')]
          = (Inl error, w2)
      \<and> \<not> nullish error
      \<and> (get_member error ''status'' = JNum 409 \<or> get_member error ''statusCode'' = JNum 409)
      \<and> respond env w2 Clients_filter [JObj [(''email'', JStr (email params))]]
          = (Inr found, w3)
      \<and> \<not> nullish found \<and> get_member found ''clients'' = JArr existing
      \<and> (existing = [] \<or> \<not> truthy (hd existing))
      \<longrightarrow>
      signup cfg env params s =
        (Inl (ApiError (JStr ''User conflict but not found'') (Some 500)),
         s1\<lparr>world := w3,
            trace := trace s1 @
              [Called Clients_create
                 [create_body cfg params (get_member (get_member strapiAuth ''user'') ''id'')]
                 (Inl error),
               Called Clients_filter [JObj [(''email'', JStr (email params))]]
                 (Inr found)]\<rparr>))"
  apply (intro conjI allI impI)
   apply (elim conjE, erule (12) signup_conflict_found)
  apply (elim conjE, erule (9) signup_conflict_lost)
  done

theorem signup_conflict_fallback_witness:
  "StrapiService_register env0 (register_body signup_ann) s0
     = (Inr strapi_auth0, snd (StrapiService_register env0 (register_body signup_ann) s0))
   \<and> respond env0 (world (snd (StrapiService_register env0 (register_body signup_ann) s0)))
        Clients_create
        [create_body cfg0 signup_ann (get_member (get_member strapi_auth0 ''user'') ''id'')]
       = (Inl conflict409, 2)
   \<and> get_member conflict409 ''status'' = JNum 409
   \<and> fst (signup cfg0 env0 signup_ann s0) =
        Inr (JObj [(''token'', get_member strapi_auth0 ''jwt''),
                   (''user'',
                    JObj (pick (JObj (spread client7 (get_member strapi_auth0 ''user'')))
                            userProfilKeys))])
   \<and> callees (trace (snd (signup cfg0 env0 signup_ann s0)))
       = [Axios_post, Clients_create, Clients_filter, Clients_update, Clients_get]
   \<and> fst (signup cfg0 env0 signup_lost s0)
       = Inl (ApiError (JStr ''User conflict but not found'') (Some 500))"
proof -
  let ?s1 = "snd (StrapiService_register env0 (register_body signup_ann) s0)"
  let ?l1 = "snd (StrapiService_register env0 (register_body signup_lost) s0)"
  have "fst (StrapiService_register env0 (register_body signup_ann) s0) = Inr strapi_auth0"
    by code_simp
  then have reg: "StrapiService_register env0 (register_body signup_ann) s0
     = (Inr strapi_auth0, ?s1)"
    by (simp add: prod_eq_iff)
  have "fst (StrapiService_register env0 (register_body signup_lost) s0) = Inr strapi_auth0"
    by code_simp
  then have reg_lost: "StrapiService_register env0 (register_body signup_lost) s0
     = (Inr strapi_auth0, ?l1)"
    by (simp add: prod_eq_iff)
  have shape: "\<not> nullish strapi_auth0" "\<not> nullish (get_member strapi_auth0 ''user'')"
    "\<not> nullish conflict409"
    "get_member conflict409 ''status'' = JNum 409 \<or> get_member conflict409 ''statusCode'' = JNum 409"
    by code_simp+
  have create: "respond env0 (world ?s1) Clients_create
        [create_body cfg0 signup_ann (get_member (get_member strapi_auth0 ''user'') ''id'')]
       = (Inl conflict409, 2)"
    by code_simp
  have found:
    "respond env0 2 Clients_filter [JObj [(''email'', JStr (email signup_ann))]]
       = (Inr (JObj [(''clients'', JArr [client7])]), 3)"
    "\<not> nullish (JObj [(''clients'', JArr [client7])])"
    "get_member (JObj [(''clients'', JArr [client7])]) ''clients'' = JArr (client7 # [])"
    "truthy client7"
    "respond env0 3 Clients_update
       [update_body signup_ann client7 (get_member (get_member strapi_auth0 ''user'') ''id'')]
       = (Inr JUndefined, 4)"
    "respond env0 4 Clients_get [get_member client7 ''clientId''] = (Inr client7, 5)"
    by code_simp+
  have h: "StrapiService_register env0 (register_body signup_ann) s0 = (Inr strapi_auth0, ?s1)
      \<and> \<not> nullish strapi_auth0 \<and> \<not> nullish (get_member strapi_auth0 ''user'')
      \<and> respond env0 (world ?s1) Clients_create
            [create_body cfg0 signup_ann (get_member (get_member strapi_auth0 ''user'') ''id'')]
          = (Inl conflict409, 2)
      \<and> \<not> nullish conflict409
      \<and> (get_member conflict409 ''status'' = JNum 409
          \<or> get_member conflict409 ''statusCode'' = JNum 409)
      \<and> respond env0 2 Clients_filter [JObj [(''email'', JStr (email signup_ann))]]
          = (Inr (JObj [(''clients'', JArr [client7])]), 3)
      \<and> \<not> nullish (JObj [(''clients'', JArr [client7])])
      \<and> get_member (JObj [(''clients'', JArr [client7])]) ''clients'' = JArr (client7 # [])
      \<and> truthy client7
      \<and> respond env0 3 Clients_update
            [update_body signup_ann client7
               (get_member (get_member strapi_auth0 ''user'') ''id'')]
          = (Inr JUndefined, 4)
      \<and> respond env0 4 Clients_get [get_member client7 ''clientId''] = (Inr client7, 5)
      \<and> truthy client7"
    using reg shape create found by (intro conjI)
  note run = signup_conflict_fallback
    [of env0 signup_ann s0 cfg0, THEN conjunct1, THEN spec, THEN spec, THEN spec, THEN spec,
     THEN spec, THEN spec, THEN spec, THEN spec, THEN spec, THEN spec, THEN spec, THEN spec,
     THEN mp, OF h]
  have ok: "fst (signup cfg0 env0 signup_ann s0) =
        Inr (JObj [(''token'', get_member strapi_auth0 ''jwt''),
                   (''user'',
                    JObj (pick (JObj (spread client7 (get_member strapi_auth0 ''user'')))
                            userProfilKeys))])"
    by (simp only: run fst_conv)
  have order: "callees (trace (snd (signup cfg0 env0 signup_ann s0)))
       = [Axios_post, Clients_create, Clients_filter, Clients_update, Clients_get]"
    by code_simp
  have lost:
    "respond env0 (world ?l1) Clients_create
        [create_body cfg0 signup_lost (get_member (get_member strapi_auth0 ''user'') ''id'')]
       = (Inl conflict409, 2)"
    "respond env0 2 Clients_filter [JObj [(''email'', JStr (email signup_lost))]]
       = (Inr (JObj [(''clients'', JArr [])]), 3)"
    "\<not> nullish (JObj [(''clients'', JArr [])])"
    "get_member (JObj [(''clients'', JArr [])]) ''clients'' = JArr []"
    by code_simp+
  have g: "StrapiService_register env0 (register_body signup_lost) s0 = (Inr strapi_auth0, ?l1)
      \<and> \<not> nullish strapi_auth0 \<and> \<not> nullish (get_member strapi_auth0 ''user'')
      \<and> respond env0 (world ?l1) Clients_create
            [create_body cfg0 signup_lost (get_member (get_member strapi_auth0 ''user'') ''id'')]
          = (Inl conflict409, 2)
      \<and> \<not> nullish conflict409
      \<and> (get_member conflict409 ''status'' = JNum 409
          \<or> get_member conflict409 ''statusCode'' = JNum 409)
      \<and> respond env0 2 Clients_filter [JObj [(''email'', JStr (email signup_lost))]]
          = (Inr (JObj [(''clients'', JArr [])]), 3)
      \<and> \<not> nullish (JObj [(''clients'', JArr [])])
      \<and> get_member (JObj [(''clients'', JArr [])]) ''clients'' = JArr []
      \<and> ([] = [] \<or> \<not> truthy (hd []))"
    using reg_lost shape lost by (intro conjI) simp_all
  note fail = signup_conflict_fallback
    [of env0 signup_lost s0 cfg0, THEN conjunct2, THEN spec, THEN spec, THEN spec, THEN spec,
     THEN spec, THEN spec, THEN spec, THEN mp, OF g]
  have no: "fst (signup cfg0 env0 signup_lost s0)
       = Inl (ApiError (JStr ''User conflict but not found'') (Some 500))"
    by (simp only: fail fst_conv)
  from reg create shape(4) ok order no show ?thesis
    by (simp add: conflict409_def)
qed

text \<open>
  The claim as stated fails when the registry reports the conflict and then has no
  record for the email: the identity provider has registered the user, the create is a
  409, and \<open>signup\<close> raises a 500 error to the caller; nothing is updated or fetched.
\<close>

theorem signup_conflict_fallback_counterexample:
  "fst (StrapiService_register env0 (register_body signup_lost) s0) = Inr strapi_auth0
   \<and> respond env0 1 Clients_create [create_body cfg0 signup_lost (JNum 31)]
       = (Inl conflict409, 2)
   \<and> get_member conflict409 ''status'' = JNum 409
   \<and> fst (signup cfg0 env0 signup_lost s0)
       = Inl (ApiError (JStr ''User conflict but not found'') (Some 500))
   \<and> callees (trace (snd (signup cfg0 env0 signup_lost s0)))
       = [Axios_post, Clients_create, Clients_filter]"
  by code_simp

section \<open>The profile returned\<close>

lemma map_of_spread:
  "map_of (spread a b) k =
     (case map_of (own_props b) k of Some v \<Rightarrow> Some v | None \<Rightarrow> map_of (own_props a) k)"
proof -
  have 1: "map_of (map (\<lambda>(k, v). (k, case map_of B k of Some v' \<Rightarrow> v' | None \<Rightarrow> v)) A) k =
        (case map_of A k of
           None \<Rightarrow> None
         | Some v \<Rightarrow> Some (case map_of B k of Some v' \<Rightarrow> v' | None \<Rightarrow> v))" for A B :: obj
    by (induction A) (auto split: option.splits)
  have 2: "map_of (filter (\<lambda>(k, v). map_of A k = None) B) k =
        (if map_of A k = None then map_of B k else None)" for A B :: obj
    by (induction B) auto
  show ?thesis
    by (simp add: spread_def map_add_def 1 2 split: option.splits)
qed

lemma map_of_pick:
  "map_of (pick (JObj kvs) keys) k = (if k \<in> set keys then map_of kvs k else None)"
  by (induction keys) (auto simp: pick_def split: option.splits)

lemma profile_lookup:
  "map_of (pick (JObj (spread reg idp)) keys) k =
     (if k \<in> set keys
      then (case map_of (own_props idp) k of
              Some v \<Rightarrow> Some v
            | None \<Rightarrow> map_of (own_props reg) k)
      else None)"
  by (simp add: map_of_pick map_of_spread)

lemma signup_InrD:
  assumes "signup cfg env params s = (Inr r, s')"
  shows "\<exists>strapiAuth s1 userInfo args.
           StrapiService_register env (register_body params) s = (Inr strapiAuth, s1)
         \<and> (last (trace s') = Called Clients_create args (Inr userInfo)
            \<or> last (trace s') = Called Clients_get args (Inr userInfo))
         \<and> r = JObj [(''token'', get_member strapiAuth ''jwt''),
                      (''user'',
                       JObj (pick (JObj (spread userInfo (get_member strapiAuth ''user'')))
                               userProfilKeys))]"
  using assms unfolding signup_def
  by (auto dest!: bindE_InrD catchE_InrD liftE_InrD dot_InrD call_InrD split: if_splits)

lemma login_InrD:
  assumes "login cfg env lp s = (Inr r, s')"
    and "login_password lp = Some pw" and "pw \<noteq> []" and "login_identifier lp \<noteq> []"
  shows "\<exists>strapiAuth s1 found args.
           StrapiService_login env
             (JObj [(''identifier'', JStr (login_identifier lp)), (''password'', JStr pw)]) s
           = (Inr strapiAuth, s1)
         \<and> last (trace s') = Called Clients_filter args (Inr found)
         \<and> r = JObj [(''token'', get_member strapiAuth ''jwt''),
                      (''user'',
                       JObj (pick (JObj (spread (element (get_member found ''clients'') 0)
                                           (get_member strapiAuth ''user'')))
                               userProfilKeys))]"
  using assms unfolding login_def loginWithStrapi_def
  by (auto simp: index_def dest!: bindE_InrD liftE_InrD dot_InrD toString_InrD call_InrD
           split: if_splits)

text \<open>
  C9. A \<open>signup\<close> that returns has registered the user with the identity provider, and
  the last thing it did was to get a record from the registry (created, or fetched
  again after the update); a \<open>login\<close> with a password that returns has logged in with
  the identity provider and then asked the registry for the records with the
  provider's id. In both, the profile returned has exactly the allow-listed keys that
  the provider's user or the registry record has, and under each of them the
  provider's value when the provider's user has the key, the registry's otherwise.
\<close>

theorem profile_merge_precedence:
  "(\<forall>r s'. signup cfg env params s = (Inr r, s') \<longrightarrow>
      (\<exists>strapiAuth s1 reg args profile.
          StrapiService_register env (register_body params) s = (Inr strapiAuth, s1)
        \<and> (last (trace s') = Called Clients_create args (Inr reg)
            \<or> last (trace s') = Called Clients_get args (Inr reg))
        \<and> get_member r ''user'' = JObj profile
        \<and> (\<forall>k. map_of profile k =
                 (if k \<in> set userProfilKeys
                  then (case map_of (own_props (get_member strapiAuth ''user'')) k of
                          Some v \<Rightarrow> Some v
                        | None \<Rightarrow> map_of (own_props reg) k)
                  else None))))
   \<and> (\<forall>r s' pw.
        login cfg env lp s = (Inr r, s')
        \<and> login_password lp = Some pw \<and> pw \<noteq> [] \<and> login_identifier lp \<noteq> []
        \<longrightarrow>
        (\<exists>strapiAuth s1 found args profile.
            StrapiService_login env
              (JObj [(''identifier'', JStr (login_identifier lp)), (''password'', JStr pw)]) s
            = (Inr strapiAuth, s1)
          \<and> last (trace s') = Called Clients_filter args (Inr found)
          \<and> get_member r ''user'' = JObj profile
          \<and> (\<forall>k. map_of profile k =
                   (if k \<in> set userProfilKeys
                    then (case map_of (own_props (get_member strapiAuth ''user'')) k of
                            Some v \<Rightarrow> Some v
                          | None \<Rightarrow>
                              map_of (own_props (element (get_member found ''clients'') 0)) k)
                    else None))))"
proof (intro conjI allI impI)
  fix r s'
  assume "signup cfg env params s = (Inr r, s')"
  from signup_InrD [OF this] obtain strapiAuth s1 userInfo args where
    a: "StrapiService_register env (register_body params) s = (Inr strapiAuth, s1)"
       "last (trace s') = Called Clients_create args (Inr userInfo)
        \<or> last (trace s') = Called Clients_get args (Inr userInfo)" and
    r: "r = JObj [(''token'', get_member strapiAuth ''jwt''),
                  (''user'',
                   JObj (pick (JObj (spread userInfo (get_member strapiAuth ''user'')))
                           userProfilKeys))]"
    by blast
  show "\<exists>strapiAuth s1 reg args profile.
          StrapiService_register env (register_body params) s = (Inr strapiAuth, s1)
        \<and> (last (trace s') = Called Clients_create args (Inr reg)
            \<or> last (trace s') = Called Clients_get args (Inr reg))
        \<and> get_member r ''user'' = JObj profile
        \<and> (\<forall>k. map_of profile k =
                 (if k \<in> set userProfilKeys
                  then (case map_of (own_props (get_member strapiAuth ''user'')) k of
                          Some v \<Rightarrow> Some v
                        | None \<Rightarrow> map_of (own_props reg) k)
                  else None))"
    apply (rule_tac x = strapiAuth in exI)
    apply (rule_tac x = s1 in exI)
    apply (rule_tac x = userInfo in exI)
    apply (rule_tac x = args in exI)
    apply (rule_tac x = "pick (JObj (spread userInfo (get_member strapiAuth ''user'')))
                           userProfilKeys" in exI)
    apply (intro conjI allI)
       apply (rule a(1))
      apply (rule a(2))
     apply (simp add: r)
    apply (rule profile_lookup)
    done
next
  fix r s' pw
  assume h: "login cfg env lp s = (Inr r, s')
        \<and> login_password lp = Some pw \<and> pw \<noteq> [] \<and> login_identifier lp \<noteq> []"
  then have "login cfg env lp s = (Inr r, s')" "login_password lp = Some pw" "pw \<noteq> []"
    "login_identifier lp \<noteq> []"
    by simp_all
  from login_InrD [OF this] obtain strapiAuth s1 found args where
    a: "StrapiService_login env
          (JObj [(''identifier'', JStr (login_identifier lp)), (''password'', JStr pw)]) s
        = (Inr strapiAuth, s1)"
       "last (trace s') = Called Clients_filter args (Inr found)" and
    r: "r = JObj [(''token'', get_member strapiAuth ''jwt''),
                  (''user'',
                   JObj (pick (JObj (spread (element (get_member found ''clients'') 0)
                                       (get_member strapiAuth ''user'')))
                           userProfilKeys))]"
    by blast
  show "\<exists>strapiAuth s1 found args profile.
            StrapiService_login env
              (JObj [(''identifier'', JStr (login_identifier lp)), (''password'', JStr pw)]) s
            = (Inr strapiAuth, s1)
          \<and> last (trace s') = Called Clients_filter args (Inr found)
          \<and> get_member r ''user'' = JObj profile
          \<and> (\<forall>k. map_of profile k =
                   (if k \<in> set userProfilKeys
                    then (case map_of (own_props (get_member strapiAuth ''user'')) k of
                            Some v \<Rightarrow> Some v
                          | None \<Rightarrow>
                              map_of (own_props (element (get_member found ''clients'') 0)) k)
                    else None))"
    apply (rule_tac x = strapiAuth in exI)
    apply (rule_tac x = s1 in exI)
    apply (rule_tac x = found in exI)
    apply (rule_tac x = args in exI)
    apply (rule_tac x = "pick (JObj (spread (element (get_member found ''clients'') 0)
                                       (get_member strapiAuth ''user'')))
                           userProfilKeys" in exI)
    apply (intro conjI allI)
       apply (rule a(1))
      apply (rule a(2))
     apply (simp add: r)
    apply (rule profile_lookup)
    done
qed

theorem profile_merge_precedence_witness:
  "fst (signup cfg0 env0 signup_ann s0)
     = Inr (JObj [(''token'', JStr ''strapi-jwt''), (''user'', JObj profile_ann)])
   \<and> login_password login_ann = Some ''secret1'' \<and> login_identifier login_ann \<noteq> []
   \<and> fst (login cfg0 env0 login_ann s0)
       = Inr (JObj [(''token'', JStr ''strapi-jwt''), (''user'', JObj profile_ann)])
   \<and> (\<exists>strapiAuth s1 reg args profile.
          StrapiService_register env0 (register_body signup_ann) s0 = (Inr strapiAuth, s1)
        \<and> (last (trace (snd (signup cfg0 env0 signup_ann s0)))
              = Called Clients_create args (Inr reg)
            \<or> last (trace (snd (signup cfg0 env0 signup_ann s0)))
              = Called Clients_get args (Inr reg))
        \<and> get_member (JObj [(''token'', JStr ''strapi-jwt''), (''user'', JObj profile_ann)])
             ''user'' = JObj profile
        \<and> (\<forall>k. map_of profile k =
                 (if k \<in> set userProfilKeys
                  then (case map_of (own_props (get_member strapiAuth ''user'')) k of
                          Some v \<Rightarrow> Some v
                        | None \<Rightarrow> map_of (own_props reg) k)
                  else None)))
   \<and> (\<exists>strapiAuth s1 found args profile.
            StrapiService_login env0
              (JObj [(''identifier'', JStr (login_identifier login_ann)),
                     (''password'', JStr ''secret1'')]) s0
            = (Inr strapiAuth, s1)
          \<and> last (trace (snd (login cfg0 env0 login_ann s0)))
              = Called Clients_filter args (Inr found)
          \<and> get_member (JObj [(''token'', JStr ''strapi-jwt''), (''user'', JObj profile_ann)])
               ''user'' = JObj profile
          \<and> (\<forall>k. map_of profile k =
                   (if k \<in> set userProfilKeys
                    then (case map_of (own_props (get_member strapiAuth ''user'')) k of
                            Some v \<Rightarrow> Some v
                          | None \<Rightarrow>
                              map_of (own_props (element (get_member found ''clients'') 0)) k)
                    else None)))
   \<and> map_of profile_ann ''email'' = map_of (own_props strapi31) ''email''
   \<and> map_of (own_props client7) ''email'' = Some (JStr ''a@x.com'')
   \<and> map_of profile_ann ''clientId'' = map_of (own_props client7) ''clientId''
   \<and> map_of profile_ann ''fname'' = None"
proof -
  have f: "fst (signup cfg0 env0 signup_ann s0)
     = Inr (JObj [(''token'', JStr ''strapi-jwt''), (''user'', JObj profile_ann)])"
    by code_simp
  then have up: "signup cfg0 env0 signup_ann s0
     = (Inr (JObj [(''token'', JStr ''strapi-jwt''), (''user'', JObj profile_ann)]),
        snd (signup cfg0 env0 signup_ann s0))"
    by (simp add: prod_eq_iff)
  have g: "fst (login cfg0 env0 login_ann s0)
       = Inr (JObj [(''token'', JStr ''strapi-jwt''), (''user'', JObj profile_ann)])"
    by code_simp
  have pw: "login_password login_ann = Some ''secret1''" "login_identifier login_ann \<noteq> []"
    by code_simp+
  have inn: "login cfg0 env0 login_ann s0
       = (Inr (JObj [(''token'', JStr ''strapi-jwt''), (''user'', JObj profile_ann)]),
          snd (login cfg0 env0 login_ann s0))
     \<and> login_password login_ann = Some ''secret1'' \<and> ''secret1'' \<noteq> []
     \<and> login_identifier login_ann \<noteq> []"
    using g pw by (simp add: prod_eq_iff)
  note a = profile_merge_precedence
    [of cfg0 env0 signup_ann s0, THEN conjunct1, THEN spec, THEN spec, THEN mp, OF up]
  note b = profile_merge_precedence
    [of cfg0 env0 _ s0 login_ann, THEN conjunct2, THEN spec, THEN spec, THEN spec, THEN mp,
     OF inn]
  have c: "map_of profile_ann ''email'' = map_of (own_props strapi31) ''email''"
    "map_of (own_props client7) ''email'' = Some (JStr ''a@x.com'')"
    "map_of profile_ann ''clientId'' = map_of (own_props client7) ''clientId''"
    "map_of profile_ann ''fname'' = None"
    by code_simp+
  show ?thesis
    by (intro conjI f pw g a b c)
qed

end
